theory Spec2Isabelle
  imports Complex_Main "HOL-Library.Multiset"
begin

section \<open>JavaScript values and errors\<close>

text \<open>
  The values that \<^verbatim>\<open>response.json()\<close> can deliver, together with \<^verbatim>\<open>undefined\<close>, which a
  property read yields for a missing key. The upload script never computes with a number:
  it tests one for truth, compares one with \<^verbatim>\<open>0\<close> and turns one into a string. A number
  is therefore held as the string that \<^verbatim>\<open>Number.prototype.toString\<close> gives for it
  (\<^verbatim>\<open>0\<close> for both zeros, \<^verbatim>\<open>1e+21\<close>, \<^verbatim>\<open>0.1\<close>, \<^verbatim>\<open>Infinity\<close>), which names the number
  uniquely. A string is the list of its characters; of its length the script only asks
  whether it is 0. An object is the list of its own properties in insertion order, with
  distinct keys (a JSON parser keeps one value per key); none of its values is a function.
\<close>

datatype jsval =
    JUndefined
  | JNull
  | JBool bool
  | JNum string
  | JStr string
  | JArr "jsval list"
  | JObj "(string \<times> jsval) list"

text \<open>
  What a promise can be rejected with: the \<^verbatim>\<open>Error\<close> thrown by the script itself, the
  \<^verbatim>\<open>TypeError\<close> of the engine (reading a property of \<^verbatim>\<open>null\<close>, calling a non-function,
  converting an object that has no usable \<^verbatim>\<open>toString\<close>, a failed \<^verbatim>\<open>fetch\<close>), the
  \<^verbatim>\<open>SyntaxError\<close> of a body that is not JSON, and a \<^verbatim>\<open>DOMException\<close> with its name.
\<close>

datatype js_error =
    Error string
  | TypeError
  | SyntaxError
  | DOMException string

definition bind_err :: "js_error + 'a \<Rightarrow> ('a \<Rightarrow> js_error + 'b) \<Rightarrow> js_error + 'b" where
  "bind_err r f = (case r of Inl e \<Rightarrow> Inl e | Inr v \<Rightarrow> f v)"

text \<open>ToBoolean, as used by \<^verbatim>\<open>if (x)\<close>, \<^verbatim>\<open>x && y\<close> and \<^verbatim>\<open>x || y\<close>.\<close>

fun truthy :: "jsval \<Rightarrow> bool" where
  "truthy JUndefined = False"
| "truthy JNull = False"
| "truthy (JBool b) = b"
| "truthy (JNum n) = (n \<noteq> ''0'')"
| "truthy (JStr s) = (s \<noteq> [])"
| "truthy (JArr xs) = True"
| "truthy (JObj kvs) = True"

text \<open>The decimal digits of a length, which is how JavaScript prints an integer of that size.\<close>

fun string_of_nat :: "nat \<Rightarrow> string" where
  "string_of_nat n =
     (if n < 10 then [''0123456789'' ! n]
      else string_of_nat (n div 10) @ [''0123456789'' ! (n mod 10)])"

text \<open>
  A property read \<^verbatim>\<open>v.k\<close> for the keys the scripts read (\<^verbatim>\<open>analysis\<close>, \<^verbatim>\<open>redirect\<close>, the four
  field names and \<^verbatim>\<open>length\<close>): it throws on \<^verbatim>\<open>null\<close> and \<^verbatim>\<open>undefined\<close>, strings and arrays
  have a \<^verbatim>\<open>length\<close>, objects answer from their own properties.
\<close>

fun get_prop :: "jsval \<Rightarrow> string \<Rightarrow> js_error + jsval" where
  "get_prop JUndefined k = Inl TypeError"
| "get_prop JNull k = Inl TypeError"
| "get_prop (JBool b) k = Inr JUndefined"
| "get_prop (JNum n) k = Inr JUndefined"
| "get_prop (JStr s) k =
     Inr (if k = ''length'' then JNum (string_of_nat (length s)) else JUndefined)"
| "get_prop (JArr xs) k =
     Inr (if k = ''length'' then JNum (string_of_nat (length xs)) else JUndefined)"
| "get_prop (JObj kvs) k = Inr (case map_of kvs k of None \<Rightarrow> JUndefined | Some v \<Rightarrow> v)"

text \<open>The expression \<^verbatim>\<open>a || b\<close>.\<close>

definition or_else :: "jsval \<Rightarrow> jsval \<Rightarrow> jsval" where
  "or_else a b = (if truthy a then a else b)"

text \<open>
  ToString, which the DOM applies to a value assigned to a string attribute. An array
  is joined with commas, \<^verbatim>\<open>null\<close> and \<^verbatim>\<open>undefined\<close> elements giving the empty string and
  the first element that cannot be converted ending the conversion with its exception.
  An object is converted by the \<^verbatim>\<open>toString\<close> it inherits, unless it has a property of
  that name of its own: that property is not a function, \<^verbatim>\<open>valueOf\<close> gives no primitive
  either, and the conversion throws a \<^verbatim>\<open>TypeError\<close>.
\<close>

fun join_comma :: "string list \<Rightarrow> string" where
  "join_comma [] = []"
| "join_comma [s] = s"
| "join_comma (s # t # ss) = s @ '','' @ join_comma (t # ss)"

fun collect :: "(js_error + 'a) list \<Rightarrow> js_error + 'a list" where
  "collect [] = Inr []"
| "collect (r # rs) = bind_err r (\<lambda>x. bind_err (collect rs) (\<lambda>xs. Inr (x # xs)))"

fun to_string :: "jsval \<Rightarrow> js_error + string" where
  "to_string JUndefined = Inr ''undefined''"
| "to_string JNull = Inr ''null''"
| "to_string (JBool b) = Inr (if b then ''true'' else ''false'')"
| "to_string (JNum n) = Inr n"
| "to_string (JStr s) = Inr s"
| "to_string (JArr xs) =
     bind_err
       (collect (map (\<lambda>x. case x of JUndefined \<Rightarrow> Inr [] | JNull \<Rightarrow> Inr [] | _ \<Rightarrow> to_string x) xs))
       (\<lambda>ss. Inr (join_comma ss))"
| "to_string (JObj kvs) =
     (if map_of kvs ''toString'' = None then Inr ''[object Object]'' else Inl TypeError)"

section \<open>DOM nodes\<close>

text \<open>
  An element has a tag name, the token list of its class attribute (an assignment
  \<^verbatim>\<open>className = 'a b'\<close> sets the tokens \<open>[a, b]\<close>) and its child nodes; a child is a text
  node or an element. A text node holds characters only: nothing in it is markup.
\<close>

datatype element = Element string "string list" "node list"
  and node = TextNode string | ElemNode element

fun textContent :: "element \<Rightarrow> string" and node_text :: "node \<Rightarrow> string" where
  "textContent (Element t cs ks) = concat (map node_text ks)"
| "node_text (TextNode s) = s"
| "node_text (ElemNode e) = textContent e"

fun classList :: "element \<Rightarrow> string list" where
  "classList (Element t cs ks) = cs"

fun childNodes :: "element \<Rightarrow> node list" where
  "childNodes (Element t cs ks) = ks"

text \<open>
  The setter of \<^verbatim>\<open>textContent\<close> takes a nullable string: \<^verbatim>\<open>null\<close> and \<^verbatim>\<open>undefined\<close> become
  the empty string, every other value goes through ToString, whose exception the
  assignment passes on. It replaces all children by one text node, or by none when the
  string is empty.
\<close>

definition dom_string :: "jsval \<Rightarrow> js_error + string" where
  "dom_string v = (case v of JUndefined \<Rightarrow> Inr [] | JNull \<Rightarrow> Inr [] | _ \<Rightarrow> to_string v)"

definition createElement :: "string \<Rightarrow> element" where
  "createElement t = Element t [] []"

fun set_className :: "string list \<Rightarrow> element \<Rightarrow> element" where
  "set_className cs (Element t cs0 ks) = Element t cs ks"

fun set_textContent :: "jsval \<Rightarrow> element \<Rightarrow> js_error + element" where
  "set_textContent v (Element t cs ks) =
     bind_err (dom_string v) (\<lambda>s. Inr (Element t cs (if s = [] then [] else [TextNode s])))"

fun appendChild :: "element \<Rightarrow> element \<Rightarrow> element" where
  "appendChild child (Element t cs ks) = Element t cs (ks @ [ElemNode child])"

text \<open>\<^verbatim>\<open>container.innerHTML = ''\<close> removes every child.\<close>

fun clear_innerHTML :: "element \<Rightarrow> element" where
  "clear_innerHTML (Element t cs ks) = Element t cs []"

text \<open>\<^verbatim>\<open>classList.add\<close> and \<^verbatim>\<open>classList.remove\<close> on the token list, an ordered set.\<close>

fun classList_add :: "string \<Rightarrow> element \<Rightarrow> element" where
  "classList_add c (Element t cs ks) = Element t (if c \<in> set cs then cs else cs @ [c]) ks"

fun classList_remove :: "string \<Rightarrow> element \<Rightarrow> element" where
  "classList_remove c (Element t cs ks) = Element t (filter (\<lambda>x. x \<noteq> c) cs) ks"

section \<open>Result renderer\<close>

text \<open>
  \<^verbatim>\<open>createAnalysisSection\<close> and \<^verbatim>\<open>populateJdResults\<close>. A thrown exception is the \<open>Inl\<close> of
  a sum. \<open>list_item\<close> is the body of the \<^verbatim>\<open>forEach\<close> callback and \<open>forEach_append\<close> the
  loop: the items are visited in order and the first exception ends the loop.
  \<^verbatim>\<open>items.forEach\<close> exists on arrays only, so the call throws a \<^verbatim>\<open>TypeError\<close> on every
  other value. \<open>sections\<close> is the object literal of \<^verbatim>\<open>populateJdResults\<close>: its four values
  are computed in source order and \<^verbatim>\<open>Object.values\<close> lists them in that order. The
  container is cleared before the sections are built, so an exception leaves it empty
  and its classes untouched.
\<close>

definition list_item :: "jsval \<Rightarrow> js_error + element" where
  "list_item item =
     (let listItem = createElement ''li'';
          listItem = set_className [''list-group-item''] listItem
      in set_textContent item listItem)"

fun forEach_append :: "element \<Rightarrow> jsval list \<Rightarrow> js_error + element" where
  "forEach_append list [] = Inr list"
| "forEach_append list (item # items) =
     bind_err (list_item item) (\<lambda>listItem. forEach_append (appendChild listItem list) items)"

definition createAnalysisSection :: "string \<Rightarrow> jsval \<Rightarrow> js_error + element" where
  "createAnalysisSection title items =
     (let section = createElement ''div'';
          section = set_className [''mb-4''] section;
          heading = createElement ''h5''
      in bind_err (set_textContent (JStr title) heading) (\<lambda>heading.
         let section = appendChild heading section
         in bind_err (get_prop items ''length'') (\<lambda>len.
           if len = JNum ''0'' then
             (let emptyMsg = createElement ''p'';
                  emptyMsg = set_className [''text-muted'', ''fst-italic''] emptyMsg
              in bind_err (set_textContent (JStr ''No items detected'') emptyMsg) (\<lambda>emptyMsg.
                 Inr (appendChild emptyMsg section)))
           else
             (case items of
                JArr xs \<Rightarrow>
                  (let list = createElement ''ul'';
                       list = set_className [''list-group''] list
                   in bind_err (forEach_append list xs) (\<lambda>list.
                      Inr (appendChild list section)))
              | _ \<Rightarrow> Inl TypeError))))"

definition analysis_section :: "jsval \<Rightarrow> string \<Rightarrow> string \<Rightarrow> js_error + element" where
  "analysis_section analysis key title =
     bind_err (get_prop analysis key) (\<lambda>v. createAnalysisSection title (or_else v (JArr [])))"

definition sections :: "jsval \<Rightarrow> js_error + element list" where
  "sections analysis =
     bind_err (analysis_section analysis ''skills'' ''Required Skills'') (\<lambda>skills.
     bind_err (analysis_section analysis ''experience'' ''Experience Requirements'') (\<lambda>experience.
     bind_err (analysis_section analysis ''qualifications'' ''Qualifications'') (\<lambda>qualifications.
     bind_err (analysis_section analysis ''responsibilities'' ''Responsibilities'') (\<lambda>responsibilities.
       Inr [skills, experience, qualifications, responsibilities]))))"

definition populateJdResults :: "jsval \<Rightarrow> element option \<Rightarrow> (js_error + unit) \<times> element option" where
  "populateJdResults analysis container =
     (case container of
        None \<Rightarrow> (Inr (), None)
      | Some c0 \<Rightarrow>
          (let c1 = clear_innerHTML c0 in
           case sections analysis of
             Inl e \<Rightarrow> (Inl e, Some c1)
           | Inr secs \<Rightarrow>
               (let c2 = foldl (\<lambda>c s. appendChild s c) c1 secs;
                    c3 = classList_add ''fade-in'' c2;
                    c4 = classList_remove ''d-none'' c3
                in (Inr (), Some c4))))"

section \<open>Notification display\<close>

text \<open>
  The page as the scripts see it: the two upload forms with their optional submit button
  (its \<^verbatim>\<open>disabled\<close> flag) and optional spinner, the optional results container, the
  optional notification area with the alerts appended to it, the pending timers (delay
  in milliseconds and the alert to close), the errors written with \<^verbatim>\<open>console.error\<close>, the
  values assigned to \<^verbatim>\<open>window.location.href\<close>, the requests issued (method and path) and,
  as a history variable, the callbacks of the promise chain that have run. The elements
  are distinct: none of them is another's descendant. An alert keeps the markup assigned
  to its \<^verbatim>\<open>innerHTML\<close> as written.
\<close>

record alert =
  className :: string
  role :: string
  innerHTML :: string

record form =
  submitBtn :: "bool option"
  loadingSpinner :: "element option"

datatype callback = OnResponse | OnData | OnCatch | OnFinally

record document =
  jdForm :: "form option"
  cvForm :: "form option"
  jd_results :: "element option"
  alerts_container :: "alert list option"
  timers :: "(nat \<times> alert) list"
  console :: "js_error list"
  navigations :: "string list"
  requests :: "(string \<times> string) list"
  calls :: "callback list"

definition alert_markup :: "string \<Rightarrow> string" where
  "alert_markup message =
     CHR 0x0A # ''        '' @ message @
     CHR 0x0A # ''        <button type='' @ CHR 0x22 # ''button'' @ CHR 0x22 #
       '' class='' @ CHR 0x22 # ''btn-close'' @ CHR 0x22 #
       '' data-bs-dismiss='' @ CHR 0x22 # ''alert'' @ CHR 0x22 #
       '' aria-label='' @ CHR 0x22 # ''Close'' @ CHR 0x22 # ''></button>'' @
     CHR 0x0A # ''    ''"

definition showAlert :: "string \<Rightarrow> string \<Rightarrow> document \<Rightarrow> document" where
  "showAlert type message d =
     (case alerts_container d of
        None \<Rightarrow> d
      | Some alertsContainer \<Rightarrow>
          (let alert = \<lparr>className = ''alert alert-'' @ type @ '' alert-dismissible fade show'',
                        role = ''alert'',
                        innerHTML = alert_markup message\<rparr>
           in d\<lparr>alerts_container := Some (alertsContainer @ [alert]),
                timers := timers d @ [(5000, alert)]\<rparr>))"

section \<open>Upload coordinator\<close>

text \<open>
  How \<^verbatim>\<open>fetch\<close> settles is the input of a submission: rejected (the request failed), or
  resolved with a response, whose \<^verbatim>\<open>json()\<close> in turn delivers a value or is rejected.
  \<^verbatim>\<open>response.ok\<close> is true for a status from 200 to 299. A request that never settles is
  outside the model.

  An assignment to \<^verbatim>\<open>window.location.href\<close> converts the value to a string and parses it
  as a URL against the address of the page; it throws when the conversion throws, and a
  \<^verbatim>\<open>DOMException\<close> named \<^verbatim>\<open>SyntaxError\<close> when the string does not parse, and otherwise the
  browser is sent to the target. Which strings parse is the browser's matter and a
  parameter \<open>parses\<close> of the resume handler; \<open>navigations\<close> lists the targets the browser
  was sent to.

  Suppressing the default action of the submit event and reading the form fields into
  the request body change nothing on the page and are left out; a request is recorded
  by its method and path.

  A promise is its settled result together with the page at that moment. \<^verbatim>\<open>then\<close> runs
  its callback on a fulfilled promise and passes a rejection on; \<^verbatim>\<open>catch\<close> runs its
  callback on a rejected promise and passes a value on; \<^verbatim>\<open>finally\<close> runs its callback in
  both cases and keeps the result unless the callback throws. A callback that throws
  keeps the effects it had before the exception.
\<close>

record response =
  status :: nat
  json :: "js_error + jsval"

datatype fetch_result = Rejected js_error | Resolved response

definition ok :: "response \<Rightarrow> bool" where
  "ok r = (200 \<le> status r \<and> status r \<le> 299)"

type_synonym 'a promise = "(js_error + 'a) \<times> document"

definition then_p :: "'a promise \<Rightarrow> ('a \<Rightarrow> document \<Rightarrow> 'b promise) \<Rightarrow> 'b promise" where
  "then_p p f = (case p of (Inl e, d) \<Rightarrow> (Inl e, d) | (Inr v, d) \<Rightarrow> f v d)"

definition catch_p :: "'a promise \<Rightarrow> (js_error \<Rightarrow> document \<Rightarrow> 'a promise) \<Rightarrow> 'a promise" where
  "catch_p p h = (case p of (Inl e, d) \<Rightarrow> h e d | (Inr v, d) \<Rightarrow> (Inr v, d))"

definition finally_p :: "'a promise \<Rightarrow> (document \<Rightarrow> unit promise) \<Rightarrow> 'a promise" where
  "finally_p p g =
     (case p of (r, d) \<Rightarrow> (case g d of (Inl e, d') \<Rightarrow> (Inl e, d') | (Inr u, d') \<Rightarrow> (r, d')))"

definition fetch :: "string \<Rightarrow> fetch_result \<Rightarrow> document \<Rightarrow> response promise" where
  "fetch url res d =
     (let d = d\<lparr>requests := requests d @ [(''POST'', url)]\<rparr>
      in case res of Rejected e \<Rightarrow> (Inl e, d) | Resolved r \<Rightarrow> (Inr r, d))"

definition on_response :: "response \<Rightarrow> document \<Rightarrow> jsval promise" where
  "on_response r d =
     (let d = d\<lparr>calls := calls d @ [OnResponse]\<rparr>
      in if \<not> ok r then (Inl (Error ''Network response was not ok''), d)
         else (json r, d))"

text \<open>
  The submit handlers. A handler is bound only when its form exists, so a submission of
  an absent form does nothing. \<open>show_loading\<close> and \<open>reset_loading\<close> are the two guarded
  pairs of assignments at the start of a handler and in its \<^verbatim>\<open>finally\<close> callback.
\<close>

definition show_loading :: "form \<Rightarrow> form" where
  "show_loading f =
     f\<lparr>submitBtn := map_option (\<lambda>disabled. True) (submitBtn f),
       loadingSpinner := map_option (classList_remove ''d-none'') (loadingSpinner f)\<rparr>"

definition reset_loading :: "form \<Rightarrow> form" where
  "reset_loading f =
     f\<lparr>submitBtn := map_option (\<lambda>disabled. False) (submitBtn f),
       loadingSpinner := map_option (classList_add ''d-none'') (loadingSpinner f)\<rparr>"

definition jd_on_data :: "jsval \<Rightarrow> document \<Rightarrow> unit promise" where
  "jd_on_data data d =
     (let d = d\<lparr>calls := calls d @ [OnData]\<rparr>;
          d = showAlert ''success'' ''Job description uploaded and analyzed successfully!'' d
      in case jd_results d of
           None \<Rightarrow> (Inr (), d)
         | Some resultsContainer \<Rightarrow>
             (case get_prop data ''analysis'' of
                Inl e \<Rightarrow> (Inl e, d)
              | Inr analysis \<Rightarrow>
                  if truthy analysis then
                    (case populateJdResults analysis (Some resultsContainer) of
                       (r, c) \<Rightarrow> (r, d\<lparr>jd_results := c\<rparr>))
                  else (Inr (), d)))"

definition jd_on_catch :: "js_error \<Rightarrow> document \<Rightarrow> unit promise" where
  "jd_on_catch error d =
     (let d = d\<lparr>calls := calls d @ [OnCatch]\<rparr>;
          d = d\<lparr>console := console d @ [error]\<rparr>;
          d = showAlert ''danger'' ''Failed to upload job description. Please try again.'' d
      in (Inr (), d))"

definition jd_on_finally :: "document \<Rightarrow> unit promise" where
  "jd_on_finally d =
     (let d = d\<lparr>calls := calls d @ [OnFinally]\<rparr>
      in (Inr (), d\<lparr>jdForm := map_option reset_loading (jdForm d)\<rparr>))"

definition jd_submit :: "fetch_result \<Rightarrow> document \<Rightarrow> document" where
  "jd_submit res d =
     (case jdForm d of
        None \<Rightarrow> d
      | Some f \<Rightarrow>
          (let d = d\<lparr>jdForm := Some (show_loading f)\<rparr>;
               p = fetch ''/api/job-description'' res d;
               p = then_p p on_response;
               p = then_p p jd_on_data;
               p = catch_p p jd_on_catch;
               p = finally_p p jd_on_finally
           in snd p))"

definition set_location_href :: "(string \<Rightarrow> bool) \<Rightarrow> jsval \<Rightarrow> document \<Rightarrow> unit promise" where
  "set_location_href parses v d =
     (case to_string v of
        Inl e \<Rightarrow> (Inl e, d)
      | Inr s \<Rightarrow>
          if parses s then (Inr (), d\<lparr>navigations := navigations d @ [s]\<rparr>)
          else (Inl (DOMException ''SyntaxError''), d))"

definition cv_on_data :: "(string \<Rightarrow> bool) \<Rightarrow> jsval \<Rightarrow> document \<Rightarrow> unit promise" where
  "cv_on_data parses data d =
     (let d = d\<lparr>calls := calls d @ [OnData]\<rparr>;
          d = showAlert ''success'' ''Resume uploaded and analyzed successfully!'' d
      in case get_prop data ''redirect'' of
           Inl e \<Rightarrow> (Inl e, d)
         | Inr redirect \<Rightarrow>
             if truthy redirect then set_location_href parses redirect d
             else (Inr (), d))"

definition cv_on_catch :: "js_error \<Rightarrow> document \<Rightarrow> unit promise" where
  "cv_on_catch error d =
     (let d = d\<lparr>calls := calls d @ [OnCatch]\<rparr>;
          d = d\<lparr>console := console d @ [error]\<rparr>;
          d = showAlert ''danger'' ''Failed to upload resume. Please try again.'' d
      in (Inr (), d))"

definition cv_on_finally :: "document \<Rightarrow> unit promise" where
  "cv_on_finally d =
     (let d = d\<lparr>calls := calls d @ [OnFinally]\<rparr>
      in (Inr (), d\<lparr>cvForm := map_option reset_loading (cvForm d)\<rparr>))"

definition cv_submit :: "(string \<Rightarrow> bool) \<Rightarrow> fetch_result \<Rightarrow> document \<Rightarrow> document" where
  "cv_submit parses res d =
     (case cvForm d of
        None \<Rightarrow> d
      | Some f \<Rightarrow>
          (let d = d\<lparr>cvForm := Some (show_loading f)\<rparr>;
               p = fetch ''/api/resume'' res d;
               p = then_p p on_response;
               p = then_p p (cv_on_data parses);
               p = catch_p p cv_on_catch;
               p = finally_p p cv_on_finally
           in snd p))"

section \<open>Candidate scores chart\<close>


record bar_chart =
  labels :: "string list"
  data :: "real option list"
  backgroundColor :: "string list"
  borderColor :: "string list"







section \<open>Vocabulary of the properties\<close>



text \<open>The section that \<open>createAnalysisSection\<close> builds for an empty sequence.\<close>

definition empty_section :: "string \<Rightarrow> element" where
  "empty_section title =
     Element ''div'' [''mb-4'']
       [ElemNode (Element ''h5'' [] (if title = [] then [] else [TextNode title])),
        ElemNode (Element ''p'' [''text-muted'', ''fst-italic''] [TextNode ''No items detected''])]"

text \<open>A form is idle: its button, if any, is enabled and its spinner, if any, is hidden.\<close>

definition busy_cleared :: "form \<Rightarrow> bool" where
  "busy_cleared f =
     ((case submitBtn f of None \<Rightarrow> True | Some disabled \<Rightarrow> \<not> disabled) \<and>
      (case loadingSpinner f of None \<Rightarrow> True | Some sp \<Rightarrow> ''d-none'' \<in> set (classList sp)))"

text \<open>The page once the request is issued, and once the response callback has run.\<close>

definition requested :: "string \<Rightarrow> document \<Rightarrow> document" where
  "requested url d = d\<lparr>requests := requests d @ [(''POST'', url)]\<rparr>"

definition responded :: "string \<Rightarrow> document \<Rightarrow> document" where
  "responded url d = (requested url d)\<lparr>calls := calls d @ [OnResponse]\<rparr>"

text \<open>
  The three failures of an upload: the request fails, the status is not a success, or
  the body of a successful response is not JSON.
\<close>

definition upload_failed :: "fetch_result \<Rightarrow> bool" where
  "upload_failed res = (case res of Rejected e \<Rightarrow> True | Resolved r \<Rightarrow> \<not> ok r \<or> isl (json r))"

text \<open>
  Sample pages: one with both forms, the results container and the notification area;
  the same without the notification area; and the pages that hold one form only.
\<close>

definition page0 :: document where
  "page0 =
     \<lparr>jdForm = Some \<lparr>submitBtn = Some False,
                       loadingSpinner = Some (Element ''div'' [''spinner-container'', ''d-none''] [])\<rparr>,
      cvForm = Some \<lparr>submitBtn = Some False,
                       loadingSpinner = Some (Element ''div'' [''spinner-container'', ''d-none''] [])\<rparr>,
      jd_results = Some (Element ''div'' [''d-none''] []),
      alerts_container = Some [],
      timers = [],
      console = [],
      navigations = [],
      requests = [],
      calls = []\<rparr>"

definition page_no_alerts :: document where
  "page_no_alerts = page0\<lparr>alerts_container := None\<rparr>"

definition page_jd_only :: document where
  "page_jd_only = page0\<lparr>cvForm := None\<rparr>"

definition page_cv_only :: document where
  "page_cv_only = page0\<lparr>jdForm := None\<rparr>"

section \<open>Properties of the conversions\<close>

declare string_of_nat.simps [simp del]

lemma string_of_nat_nonempty: "string_of_nat n \<noteq> []"
  by (subst string_of_nat.simps) simp

lemma digit_table: "list_all (\<lambda>n. (''0123456789'' ! n = CHR ''0'') = (n = 0)) [0..<10]"
  by code_simp

lemma digit_zero: "n < 10 \<Longrightarrow> (''0123456789'' ! n = CHR ''0'') = (n = 0)"
  using digit_table by (simp add: list_all_iff del: upt.simps)

lemma string_of_nat_zero: "(string_of_nat n = ''0'') = (n = 0)"
proof (cases "n < 10")
  case True
  then show ?thesis by (subst string_of_nat.simps) (simp add: digit_zero)
next
  case False
  have "length (string_of_nat n) = length (string_of_nat (n div 10)) + 1"
    using False by (subst string_of_nat.simps) simp
  moreover have "0 < length (string_of_nat (n div 10))"
    using string_of_nat_nonempty by simp
  ultimately have "length (string_of_nat n) \<noteq> length ''0''" by simp
  then have "string_of_nat n \<noteq> ''0''" by metis
  then show ?thesis using False by simp
qed







section \<open>Properties of the result renderer\<close>

lemma dom_string_JStr: "dom_string (JStr s) = Inr s"
  by (simp add: dom_string_def)

lemma list_item_JStr:
  "list_item (JStr s) =
     Inr (Element ''li'' [''list-group-item''] (if s = [] then [] else [TextNode s]))"
  by (simp add: list_item_def createElement_def dom_string_JStr bind_err_def)





lemma forEach_append_strings:
  "forEach_append (Element t cs ks) (map JStr ss) =
     Inr (Element t cs
           (ks @ map (\<lambda>s. ElemNode (Element ''li'' [''list-group-item'']
                                       (if s = [] then [] else [TextNode s]))) ss))"
  by (induction ss arbitrary: ks) (simp_all add: list_item_JStr bind_err_def)

lemma foldl_appendChild:
  "foldl (\<lambda>c s. appendChild s c) (Element t cs ks) secs = Element t cs (ks @ map ElemNode secs)"
  by (induction secs arbitrary: ks) simp_all

lemma createAnalysisSection_eq:
  "createAnalysisSection title items =
     bind_err (get_prop items ''length'') (\<lambda>len.
       if len = JNum ''0'' then Inr (empty_section title)
       else (case items of
               JArr xs \<Rightarrow>
                 bind_err (forEach_append (Element ''ul'' [''list-group''] []) xs) (\<lambda>list.
                   Inr (Element ''div'' [''mb-4'']
                         [ElemNode (Element ''h5'' [] (if title = [] then [] else [TextNode title])),
                          ElemNode list]))
             | _ \<Rightarrow> Inl TypeError))"
proof -
  have "appendChild list (Element ''div'' [''mb-4''] [ElemNode h]) =
      Element ''div'' [''mb-4''] [ElemNode h, ElemNode list]" for list h
    by simp
  then show ?thesis
    by (cases "get_prop items ''length''"; cases items)
      (simp_all add: createAnalysisSection_def createElement_def dom_string_JStr bind_err_def
        empty_section_def Let_def split: sum.split)
qed

lemma createAnalysisSection_strings:
  "createAnalysisSection title (JArr (map JStr (s # ss))) =
     Inr (Element ''div'' [''mb-4'']
           [ElemNode (Element ''h5'' [] (if title = [] then [] else [TextNode title])),
            ElemNode (Element ''ul'' [''list-group'']
              (map (\<lambda>s. ElemNode (Element ''li'' [''list-group-item'']
                                       (if s = [] then [] else [TextNode s]))) (s # ss)))])"
proof -
  have "forEach_append (Element ''ul'' [''list-group''] []) (map JStr (s # ss)) =
      Inr (Element ''ul'' [''list-group'']
            (map (\<lambda>s. ElemNode (Element ''li'' [''list-group-item'']
                                       (if s = [] then [] else [TextNode s]))) (s # ss)))"
    using forEach_append_strings [of "''ul''" "[''list-group'']" "[]" "s # ss"] by simp
  then show ?thesis
    by (simp add: createAnalysisSection_eq bind_err_def string_of_nat_zero
        del: forEach_append.simps)
qed

lemma createAnalysisSection_empty:
  "createAnalysisSection title (JArr []) = Inr (empty_section title)"
  by (simp add: createAnalysisSection_eq bind_err_def string_of_nat_zero)


text \<open>
  Claim C8. Every item string of a non-empty section becomes one list item, in input
  order, whose only child is a text node holding the string (no child at all for the
  empty string): the string is never parsed as markup, and the text content of the
  list item is the string itself, whatever characters it contains.
\<close>

theorem items_rendered_as_text:
  "createAnalysisSection title (JArr (map JStr (s # ss))) =
     Inr (Element ''div'' [''mb-4'']
           [ElemNode (Element ''h5'' [] (if title = [] then [] else [TextNode title])),
            ElemNode (Element ''ul'' [''list-group'']
              (map (\<lambda>item. ElemNode (Element ''li'' [''list-group-item'']
                                          (if item = [] then [] else [TextNode item])))
                 (s # ss)))])
   \<and> list_item (JStr item) =
       Inr (Element ''li'' [''list-group-item''] (if item = [] then [] else [TextNode item]))
   \<and> textContent (Element ''li'' [''list-group-item'']
                     (if item = [] then [] else [TextNode item])) = item"
  using createAnalysisSection_strings [of title s ss]
  by (simp add: list_item_JStr)

theorem items_rendered_as_text_witness:
  "createAnalysisSection ''Required Skills'' (JArr [JStr ''<b>Go</b>'', JStr ''a & b'']) =
     Inr (Element ''div'' [''mb-4'']
           [ElemNode (Element ''h5'' [] [TextNode ''Required Skills'']),
            ElemNode (Element ''ul'' [''list-group'']
              [ElemNode (Element ''li'' [''list-group-item''] [TextNode ''<b>Go</b>'']),
               ElemNode (Element ''li'' [''list-group-item''] [TextNode ''a & b''])])])
   \<and> list_item (JStr ''<script>alert(1)</script>'') =
       Inr (Element ''li'' [''list-group-item''] [TextNode ''<script>alert(1)</script>''])
   \<and> textContent (Element ''li'' [''list-group-item''] [TextNode ''<script>alert(1)</script>'']) =
       ''<script>alert(1)</script>''"
  using items_rendered_as_text
    [of "''Required Skills''" "''<b>Go</b>''" "[''a & b'']" "''<script>alert(1)</script>''"]
  by simp

lemma sections_by_lookup:
  "map_of kvs = map_of kvs' \<Longrightarrow> sections (JObj kvs) = sections (JObj kvs')"
  by (simp add: sections_def analysis_section_def)

lemma populate_by_lookup:
  "map_of kvs = map_of kvs' \<Longrightarrow> populateJdResults (JObj kvs) c = populateJdResults (JObj kvs') c"
  using sections_by_lookup [of kvs kvs'] by (cases c) (simp_all add: populateJdResults_def)

lemma go_rust_list:
  "createAnalysisSection title (JArr [JStr ''Go'', JStr ''Rust'']) =
     Inr (Element ''div'' [''mb-4'']
           [ElemNode (Element ''h5'' [] (if title = [] then [] else [TextNode title])),
            ElemNode (Element ''ul'' [''list-group'']
              [ElemNode (Element ''li'' [''list-group-item''] [TextNode ''Go'']),
               ElemNode (Element ''li'' [''list-group-item''] [TextNode ''Rust''])])])"
  using createAnalysisSection_strings [of title "''Go''" "[''Rust'']"] by simp

text \<open>
  Claim C5. For the analysis \<^verbatim>\<open>{ skills: ["Go", "Rust"] }\<close> and any container, the renderer
  returns normally and the container holds exactly four sections, in the order skills,
  experience, qualifications, responsibilities: the first is the heading with a list of
  the two items Go and Rust in that order, each of the other three is a heading with the
  placeholder paragraph. The container gains the class \<^verbatim>\<open>fade-in\<close> and loses \<^verbatim>\<open>d-none\<close>. The
  order in which an object lists its keys does not matter: two objects with the same
  value for every key render the same.
\<close>

theorem go_rust_sections:
  "populateJdResults (JObj [(''skills'', JArr [JStr ''Go'', JStr ''Rust''])])
       (Some (Element t cs ks)) =
     (Inr (),
      Some (Element t
        (filter (\<lambda>x. x \<noteq> ''d-none'') (if ''fade-in'' \<in> set cs then cs else cs @ [''fade-in'']))
        [ElemNode (Element ''div'' [''mb-4'']
           [ElemNode (Element ''h5'' [] [TextNode ''Required Skills'']),
            ElemNode (Element ''ul'' [''list-group'']
              [ElemNode (Element ''li'' [''list-group-item''] [TextNode ''Go'']),
               ElemNode (Element ''li'' [''list-group-item''] [TextNode ''Rust''])])]),
         ElemNode (Element ''div'' [''mb-4'']
           [ElemNode (Element ''h5'' [] [TextNode ''Experience Requirements'']),
            ElemNode (Element ''p'' [''text-muted'', ''fst-italic''] [TextNode ''No items detected''])]),
         ElemNode (Element ''div'' [''mb-4'']
           [ElemNode (Element ''h5'' [] [TextNode ''Qualifications'']),
            ElemNode (Element ''p'' [''text-muted'', ''fst-italic''] [TextNode ''No items detected''])]),
         ElemNode (Element ''div'' [''mb-4'']
           [ElemNode (Element ''h5'' [] [TextNode ''Responsibilities'']),
            ElemNode (Element ''p'' [''text-muted'', ''fst-italic''] [TextNode ''No items detected''])])]))
   \<and> (\<forall>kvs kvs' c. map_of kvs = map_of kvs' \<longrightarrow>
         populateJdResults (JObj kvs) c = populateJdResults (JObj kvs') c)"
proof (rule conjI)
  show "\<forall>kvs kvs' c. map_of kvs = map_of kvs' \<longrightarrow>
         populateJdResults (JObj kvs) c = populateJdResults (JObj kvs') c"
    using populate_by_lookup by blast
qed (simp add: populateJdResults_def sections_def analysis_section_def bind_err_def or_else_def
    go_rust_list createAnalysisSection_empty empty_section_def)

theorem go_rust_sections_witness:
  "fst (populateJdResults (JObj [(''skills'', JArr [JStr ''Go'', JStr ''Rust''])])
          (Some (Element ''div'' [''d-none''] [TextNode ''stale'']))) = Inr ()
   \<and> map_option (\<lambda>c. (classList c, length (childNodes c)))
        (snd (populateJdResults (JObj [(''skills'', JArr [JStr ''Go'', JStr ''Rust''])])
               (Some (Element ''div'' [''d-none''] [TextNode ''stale''])))) =
       Some ([''fade-in''], 4)
   \<and> populateJdResults
         (JObj [(''experience'', JArr [JStr ''5 years'']), (''skills'', JArr [JStr ''Go''])])
         (Some (Element ''div'' [] [])) =
       populateJdResults
         (JObj [(''skills'', JArr [JStr ''Go'']), (''experience'', JArr [JStr ''5 years''])])
         (Some (Element ''div'' [] []))"
proof -
  have "map_of [(''experience'', JArr [JStr ''5 years'']), (''skills'', JArr [JStr ''Go''])] =
        map_of [(''skills'', JArr [JStr ''Go'']), (''experience'', JArr [JStr ''5 years''])]"
    by (auto simp add: fun_eq_iff)
  then have "populateJdResults
         (JObj [(''experience'', JArr [JStr ''5 years'']), (''skills'', JArr [JStr ''Go''])])
         (Some (Element ''div'' [] [])) =
       populateJdResults
         (JObj [(''skills'', JArr [JStr ''Go'']), (''experience'', JArr [JStr ''5 years''])])
         (Some (Element ''div'' [] []))"
    using go_rust_sections [of "''div''" "[''d-none'']" "[TextNode ''stale'']"] by blast
  moreover have "populateJdResults (JObj [(''skills'', JArr [JStr ''Go'', JStr ''Rust''])])
       (Some (Element ''div'' [''d-none''] [TextNode ''stale''])) =
     (Inr (),
      Some (Element ''div'' [''fade-in'']
        [ElemNode (Element ''div'' [''mb-4'']
           [ElemNode (Element ''h5'' [] [TextNode ''Required Skills'']),
            ElemNode (Element ''ul'' [''list-group'']
              [ElemNode (Element ''li'' [''list-group-item''] [TextNode ''Go'']),
               ElemNode (Element ''li'' [''list-group-item''] [TextNode ''Rust''])])]),
         ElemNode (empty_section ''Experience Requirements''),
         ElemNode (empty_section ''Qualifications''),
         ElemNode (empty_section ''Responsibilities'')]))"
    using go_rust_sections [of "''div''" "[''d-none'']" "[TextNode ''stale'']", THEN conjunct1]
    by (simp add: empty_section_def)
  ultimately show ?thesis by simp
qed

lemma populate_children:
  "map_option childNodes (snd (populateJdResults a (Some c))) =
     Some (case sections a of Inl e \<Rightarrow> [] | Inr secs \<Rightarrow> map ElemNode secs)"
  by (cases c) (simp add: populateJdResults_def foldl_appendChild split: sum.split)

lemma populate_Some: "\<exists>c'. snd (populateJdResults a (Some c)) = Some c'"
  by (simp add: populateJdResults_def Let_def split: sum.split)

text \<open>
  Claim C6. After two calls of the renderer on the same container, the children of the
  container are exactly the sections built from the second input (none, when the second
  call throws): they are the children that the second call alone leaves behind, and
  nothing of the first call remains.
\<close>

theorem no_accumulation:
  "map_option childNodes (snd (populateJdResults a2 (snd (populateJdResults a1 (Some c))))) =
     Some (case sections a2 of Inl e \<Rightarrow> [] | Inr secs \<Rightarrow> map ElemNode secs)
   \<and> map_option childNodes (snd (populateJdResults a2 (snd (populateJdResults a1 (Some c))))) =
       map_option childNodes (snd (populateJdResults a2 (Some c)))"
proof -
  obtain c' where "snd (populateJdResults a1 (Some c)) = Some c'"
    using populate_Some by blast
  then show ?thesis
    by (simp add: populate_children)
qed

theorem no_accumulation_witness:
  "map_option childNodes
     (snd (populateJdResults (JObj [(''skills'', JArr [JStr ''SQL''])])
        (snd (populateJdResults (JObj [(''skills'', JArr [JStr ''Go'', JStr ''Rust''])])
           (Some (Element ''div'' [''d-none''] [TextNode ''stale''])))))) =
   Some [ElemNode (Element ''div'' [''mb-4'']
           [ElemNode (Element ''h5'' [] [TextNode ''Required Skills'']),
            ElemNode (Element ''ul'' [''list-group'']
              [ElemNode (Element ''li'' [''list-group-item''] [TextNode ''SQL''])])]),
         ElemNode (empty_section ''Experience Requirements''),
         ElemNode (empty_section ''Qualifications''),
         ElemNode (empty_section ''Responsibilities'')]"
proof -
  have "createAnalysisSection ''Required Skills'' (JArr [JStr ''SQL'']) =
      Inr (Element ''div'' [''mb-4'']
           [ElemNode (Element ''h5'' [] [TextNode ''Required Skills'']),
            ElemNode (Element ''ul'' [''list-group'']
              [ElemNode (Element ''li'' [''list-group-item''] [TextNode ''SQL''])])])"
    using createAnalysisSection_strings [of "''Required Skills''" "''SQL''" "[]"] by simp
  then show ?thesis
    unfolding no_accumulation
      [of "JObj [(''skills'', JArr [JStr ''SQL''])]"
          "JObj [(''skills'', JArr [JStr ''Go'', JStr ''Rust''])]"
          "Element ''div'' [''d-none''] [TextNode ''stale'']", THEN conjunct1]
    by (simp add: sections_def analysis_section_def bind_err_def or_else_def
        createAnalysisSection_empty)
qed















section \<open>Properties of the upload coordinator\<close>

lemma classList_add_mem: "c \<in> set (classList (classList_add c e))"
  by (cases e) simp

lemma busy_cleared_reset: "busy_cleared (reset_loading f)"
  by (simp add: busy_cleared_def reset_loading_def classList_add_mem split: option.split)

lemma showAlert_keeps:
  "jdForm (showAlert ty m d) = jdForm d"
  "cvForm (showAlert ty m d) = cvForm d"
  "jd_results (showAlert ty m d) = jd_results d"
  "calls (showAlert ty m d) = calls d"
  "console (showAlert ty m d) = console d"
  "navigations (showAlert ty m d) = navigations d"
  "requests (showAlert ty m d) = requests d"
  by (simp_all add: showAlert_def Let_def split: option.split)

lemma showAlert_absent: "alerts_container d = None \<Longrightarrow> showAlert ty m d = d"
  by (simp add: showAlert_def)

lemma snd_finally_p: "snd (finally_p p g) = snd (g (snd p))"
  by (cases p) (simp add: finally_p_def split: prod.split sum.split)

lemma jd_on_data_keeps:
  "jdForm (snd (jd_on_data v d)) = jdForm d"
  "cvForm (snd (jd_on_data v d)) = cvForm d"
  "calls (snd (jd_on_data v d)) = calls d @ [OnData]"
  "console (snd (jd_on_data v d)) = console d"
  "navigations (snd (jd_on_data v d)) = navigations d"
  "requests (snd (jd_on_data v d)) = requests d"
  by (simp_all add: jd_on_data_def Let_def showAlert_keeps split: option.split sum.split prod.split)

lemma cv_on_data_keeps:
  "jdForm (snd (cv_on_data parses v d)) = jdForm d"
  "cvForm (snd (cv_on_data parses v d)) = cvForm d"
  "calls (snd (cv_on_data parses v d)) = calls d @ [OnData]"
  "console (snd (cv_on_data parses v d)) = console d"
  "jd_results (snd (cv_on_data parses v d)) = jd_results d"
  "requests (snd (cv_on_data parses v d)) = requests d"
  by (simp_all add: cv_on_data_def set_location_href_def Let_def showAlert_keeps
      split: option.split sum.split prod.split)

lemma jd_on_catch_keeps:
  "fst (jd_on_catch e d) = Inr ()"
  "jdForm (snd (jd_on_catch e d)) = jdForm d"
  "cvForm (snd (jd_on_catch e d)) = cvForm d"
  "calls (snd (jd_on_catch e d)) = calls d @ [OnCatch]"
  "console (snd (jd_on_catch e d)) = console d @ [e]"
  "navigations (snd (jd_on_catch e d)) = navigations d"
  "jd_results (snd (jd_on_catch e d)) = jd_results d"
  "requests (snd (jd_on_catch e d)) = requests d"
  by (simp_all add: jd_on_catch_def Let_def showAlert_keeps)

lemma cv_on_catch_keeps:
  "fst (cv_on_catch e d) = Inr ()"
  "jdForm (snd (cv_on_catch e d)) = jdForm d"
  "cvForm (snd (cv_on_catch e d)) = cvForm d"
  "calls (snd (cv_on_catch e d)) = calls d @ [OnCatch]"
  "console (snd (cv_on_catch e d)) = console d @ [e]"
  "navigations (snd (cv_on_catch e d)) = navigations d"
  "jd_results (snd (cv_on_catch e d)) = jd_results d"
  "requests (snd (cv_on_catch e d)) = requests d"
  by (simp_all add: cv_on_catch_def Let_def showAlert_keeps)

subsection \<open>The promise chain by the way the request settles\<close>

lemma chain_rejected:
  "catch_p (then_p (then_p (fetch url (Rejected e) d) on_response) h) k = k e (requested url d)"
  by (simp add: fetch_def then_p_def catch_p_def requested_def Let_def)

lemma chain_not_ok:
  "\<not> ok r \<Longrightarrow>
   catch_p (then_p (then_p (fetch url (Resolved r) d) on_response) h) k =
     k (Error ''Network response was not ok'') (responded url d)"
  by (simp add: fetch_def then_p_def catch_p_def on_response_def requested_def responded_def Let_def)

lemma chain_bad_body:
  "ok r \<Longrightarrow> json r = Inl e \<Longrightarrow>
   catch_p (then_p (then_p (fetch url (Resolved r) d) on_response) h) k = k e (responded url d)"
  by (simp add: fetch_def then_p_def catch_p_def on_response_def requested_def responded_def Let_def)

lemma chain_data:
  "ok r \<Longrightarrow> json r = Inr v \<Longrightarrow>
   catch_p (then_p (then_p (fetch url (Resolved r) d) on_response) h) k =
     (case fst (h v (responded url d)) of
        Inl e \<Rightarrow> k e (snd (h v (responded url d)))
      | Inr u \<Rightarrow> h v (responded url d))"
  by (cases "h v (responded url d)")
    (simp add: fetch_def then_p_def catch_p_def on_response_def requested_def responded_def Let_def
      split: sum.split)

lemma jd_submit_eq:
  "jdForm d = Some f \<Longrightarrow>
   jd_submit res d =
     snd (jd_on_finally (snd (catch_p (then_p (then_p
       (fetch ''/api/job-description'' res (d\<lparr>jdForm := Some (show_loading f)\<rparr>)) on_response)
       jd_on_data) jd_on_catch)))"
  by (simp add: jd_submit_def Let_def snd_finally_p)

lemma cv_submit_eq:
  "cvForm d = Some f \<Longrightarrow>
   cv_submit parses res d =
     snd (cv_on_finally (snd (catch_p (then_p (then_p
       (fetch ''/api/resume'' res (d\<lparr>cvForm := Some (show_loading f)\<rparr>)) on_response)
       (cv_on_data parses)) cv_on_catch)))"
  by (simp add: cv_submit_def Let_def snd_finally_p)

lemma settled_cases:
  obtains (rejected) e where "res = Rejected e"
  | (not_ok) r where "res = Resolved r" "\<not> ok r"
  | (bad_body) r e where "res = Resolved r" "ok r" "json r = Inl e"
  | (parsed) r v where "res = Resolved r" "ok r" "json r = Inr v"
proof (cases res)
  case (Rejected e)
  then show ?thesis using rejected by blast
next
  case (Resolved r)
  then show ?thesis using not_ok bad_body parsed by (cases "ok r"; cases "json r") blast+
qed

subsection \<open>The busy state\<close>

lemma jd_form_after:
  assumes "jdForm d = Some f"
  shows "jdForm (jd_submit res d) = Some (reset_loading (show_loading f))"
proof (cases res rule: settled_cases)
  case (rejected e)
  then show ?thesis
    by (simp add: jd_submit_eq [OF assms] chain_rejected jd_on_finally_def Let_def
        jd_on_catch_keeps requested_def)
next
  case (not_ok r)
  then show ?thesis
    by (simp add: jd_submit_eq [OF assms] chain_not_ok jd_on_finally_def Let_def
        jd_on_catch_keeps responded_def requested_def)
next
  case (bad_body r e)
  then show ?thesis
    by (simp add: jd_submit_eq [OF assms] chain_bad_body jd_on_finally_def Let_def
        jd_on_catch_keeps responded_def requested_def)
next
  case (parsed r v)
  then show ?thesis
    by (simp add: jd_submit_eq [OF assms] chain_data jd_on_finally_def Let_def
        jd_on_catch_keeps jd_on_data_keeps responded_def requested_def split: sum.split)
qed

lemma cv_form_after:
  assumes "cvForm d = Some f"
  shows "cvForm (cv_submit parses res d) = Some (reset_loading (show_loading f))"
proof (cases res rule: settled_cases)
  case (rejected e)
  then show ?thesis
    by (simp add: cv_submit_eq [OF assms] chain_rejected cv_on_finally_def Let_def
        cv_on_catch_keeps requested_def)
next
  case (not_ok r)
  then show ?thesis
    by (simp add: cv_submit_eq [OF assms] chain_not_ok cv_on_finally_def Let_def
        cv_on_catch_keeps responded_def requested_def)
next
  case (bad_body r e)
  then show ?thesis
    by (simp add: cv_submit_eq [OF assms] chain_bad_body cv_on_finally_def Let_def
        cv_on_catch_keeps responded_def requested_def)
next
  case (parsed r v)
  then show ?thesis
    by (simp add: cv_submit_eq [OF assms] chain_data cv_on_finally_def Let_def
        cv_on_catch_keeps cv_on_data_keeps responded_def requested_def split: sum.split)
qed

subsection \<open>The callbacks that run\<close>

lemma jd_calls_rejected:
  "jdForm d = Some f \<Longrightarrow>
   calls (jd_submit (Rejected e) d) = calls d @ [OnCatch, OnFinally]"
  by (simp add: jd_submit_eq chain_rejected jd_on_finally_def Let_def jd_on_catch_keeps requested_def)

lemma jd_calls_not_ok:
  "jdForm d = Some f \<Longrightarrow> \<not> ok r \<Longrightarrow>
   calls (jd_submit (Resolved r) d) = calls d @ [OnResponse, OnCatch, OnFinally]"
  by (simp add: jd_submit_eq chain_not_ok jd_on_finally_def Let_def jd_on_catch_keeps
      responded_def requested_def)

lemma jd_calls_bad_body:
  "jdForm d = Some f \<Longrightarrow> ok r \<Longrightarrow> json r = Inl e \<Longrightarrow>
   calls (jd_submit (Resolved r) d) = calls d @ [OnResponse, OnCatch, OnFinally]"
  by (simp add: jd_submit_eq chain_bad_body jd_on_finally_def Let_def jd_on_catch_keeps
      responded_def requested_def)

lemma jd_on_data_throws_cong:
  "jd_results d' = jd_results d \<Longrightarrow> isl (fst (jd_on_data v d')) = isl (fst (jd_on_data v d))"
  by (simp add: jd_on_data_def Let_def showAlert_keeps split: option.split sum.split prod.split)

lemma cv_on_data_throws_cong:
  "isl (fst (cv_on_data parses v d')) = isl (fst (cv_on_data parses v d))"
  by (simp add: cv_on_data_def set_location_href_def Let_def split: sum.split)

lemma jd_calls_parsed:
  assumes "jdForm d = Some f" "ok r" "json r = Inr v"
  shows "calls (jd_submit (Resolved r) d) =
     calls d @ [OnResponse, OnData] @ (if isl (fst (jd_on_data v d)) then [OnCatch] else [])
       @ [OnFinally]"
proof -
  let ?d = "responded ''/api/job-description'' (d\<lparr>jdForm := Some (show_loading f)\<rparr>)"
  have "isl (fst (jd_on_data v ?d)) = isl (fst (jd_on_data v d))"
    by (rule jd_on_data_throws_cong) (simp add: responded_def requested_def)
  then show ?thesis using assms
    by (cases "fst (jd_on_data v ?d)")
      (simp_all add: jd_submit_eq chain_data jd_on_finally_def Let_def jd_on_catch_keeps
        jd_on_data_keeps responded_def requested_def)
qed

lemma cv_calls_rejected:
  "cvForm d = Some f \<Longrightarrow>
   calls (cv_submit parses (Rejected e) d) = calls d @ [OnCatch, OnFinally]"
  by (simp add: cv_submit_eq chain_rejected cv_on_finally_def Let_def cv_on_catch_keeps requested_def)

lemma cv_calls_not_ok:
  "cvForm d = Some f \<Longrightarrow> \<not> ok r \<Longrightarrow>
   calls (cv_submit parses (Resolved r) d) = calls d @ [OnResponse, OnCatch, OnFinally]"
  by (simp add: cv_submit_eq chain_not_ok cv_on_finally_def Let_def cv_on_catch_keeps
      responded_def requested_def)

lemma cv_calls_bad_body:
  "cvForm d = Some f \<Longrightarrow> ok r \<Longrightarrow> json r = Inl e \<Longrightarrow>
   calls (cv_submit parses (Resolved r) d) = calls d @ [OnResponse, OnCatch, OnFinally]"
  by (simp add: cv_submit_eq chain_bad_body cv_on_finally_def Let_def cv_on_catch_keeps
      responded_def requested_def)

lemma cv_calls_parsed:
  assumes "cvForm d = Some f" "ok r" "json r = Inr v"
  shows "calls (cv_submit parses (Resolved r) d) =
     calls d @ [OnResponse, OnData] @ (if isl (fst (cv_on_data parses v d)) then [OnCatch] else [])
       @ [OnFinally]"
proof -
  let ?d = "responded ''/api/resume'' (d\<lparr>cvForm := Some (show_loading f)\<rparr>)"
  have "isl (fst (cv_on_data parses v ?d)) = isl (fst (cv_on_data parses v d))"
    by (rule cv_on_data_throws_cong)
  then show ?thesis using assms
    by (cases "fst (cv_on_data parses v ?d)")
      (simp_all add: cv_submit_eq chain_data cv_on_finally_def Let_def cv_on_catch_keeps
        cv_on_data_keeps responded_def requested_def)
qed

lemma jd_finally_last:
  assumes "jdForm d = Some f"
  shows "\<exists>cs. calls (jd_submit res d) = calls d @ cs @ [OnFinally] \<and> OnFinally \<notin> set cs"
proof (cases res rule: settled_cases)
  case (rejected e)
  have "calls (jd_submit res d) = calls d @ [OnCatch] @ [OnFinally]"
    using rejected jd_calls_rejected [OF assms] by simp
  then show ?thesis by (intro exI [of _ "[OnCatch]"]) simp
next
  case (not_ok r)
  have "calls (jd_submit res d) = calls d @ [OnResponse, OnCatch] @ [OnFinally]"
    using not_ok jd_calls_not_ok [OF assms] by simp
  then show ?thesis by (intro exI [of _ "[OnResponse, OnCatch]"]) simp
next
  case (bad_body r e)
  have "calls (jd_submit res d) = calls d @ [OnResponse, OnCatch] @ [OnFinally]"
    using bad_body jd_calls_bad_body [OF assms] by simp
  then show ?thesis by (intro exI [of _ "[OnResponse, OnCatch]"]) simp
next
  case (parsed r v)
  let ?cs = "[OnResponse, OnData] @ (if isl (fst (jd_on_data v d)) then [OnCatch] else [])"
  have "calls (jd_submit res d) = calls d @ ?cs @ [OnFinally]"
    using parsed jd_calls_parsed [OF assms] by simp
  then show ?thesis by (intro exI [of _ ?cs]) simp
qed

lemma cv_finally_last:
  assumes "cvForm d = Some f"
  shows "\<exists>cs. calls (cv_submit parses res d) = calls d @ cs @ [OnFinally] \<and> OnFinally \<notin> set cs"
proof (cases res rule: settled_cases)
  case (rejected e)
  have "calls (cv_submit parses res d) = calls d @ [OnCatch] @ [OnFinally]"
    using rejected cv_calls_rejected [OF assms] by simp
  then show ?thesis by (intro exI [of _ "[OnCatch]"]) simp
next
  case (not_ok r)
  have "calls (cv_submit parses res d) = calls d @ [OnResponse, OnCatch] @ [OnFinally]"
    using not_ok cv_calls_not_ok [OF assms] by simp
  then show ?thesis by (intro exI [of _ "[OnResponse, OnCatch]"]) simp
next
  case (bad_body r e)
  have "calls (cv_submit parses res d) = calls d @ [OnResponse, OnCatch] @ [OnFinally]"
    using bad_body cv_calls_bad_body [OF assms] by simp
  then show ?thesis by (intro exI [of _ "[OnResponse, OnCatch]"]) simp
next
  case (parsed r v)
  let ?cs = "[OnResponse, OnData] @ (if isl (fst (cv_on_data parses v d)) then [OnCatch] else [])"
  have "calls (cv_submit parses res d) = calls d @ ?cs @ [OnFinally]"
    using parsed cv_calls_parsed [OF assms] by simp
  then show ?thesis by (intro exI [of _ ?cs]) simp
qed

lemma reset_show_loading:
  "reset_loading (show_loading f) =
     \<lparr>submitBtn = map_option (\<lambda>disabled. False) (submitBtn f),
      loadingSpinner =
        map_option
          (\<lambda>sp. case sp of Element t cs ks \<Rightarrow>
                   Element t (filter (\<lambda>c. c \<noteq> ''d-none'') cs @ [''d-none'']) ks)
          (loadingSpinner f)\<rparr>"
proof -
  have "classList_add ''d-none'' (classList_remove ''d-none'' sp) =
      (case sp of Element t cs ks \<Rightarrow>
         Element t (filter (\<lambda>c. c \<noteq> ''d-none'') cs @ [''d-none'']) ks)" for sp
    by (cases sp) simp
  then show ?thesis
    by (cases f) (simp add: reset_loading_def show_loading_def option.map_comp comp_def)
qed

text \<open>
  Claim C1. For a submission of either form, on a page that holds it (with or without
  the other form), and for every way the request settles (the request fails, the status
  is not a success, the body is not JSON, the body is JSON and the success handler
  returns or throws): afterwards the form is the form it was, with the \<^verbatim>\<open>disabled\<close> flag
  of its submit button, if it has one, set to false, and with the class \<^verbatim>\<open>d-none\<close> on its
  spinner, if it has one. The \<^verbatim>\<open>finally\<close> callback runs on every path, exactly once and
  last.
\<close>

theorem busy_state_cleared:
  "(\<forall>f. jdForm d = Some f \<longrightarrow>
       jdForm (jd_submit res d) =
         Some \<lparr>submitBtn = map_option (\<lambda>disabled. False) (submitBtn f),
               loadingSpinner =
                 map_option
                   (\<lambda>sp. case sp of Element t cs ks \<Rightarrow>
                            Element t (filter (\<lambda>c. c \<noteq> ''d-none'') cs @ [''d-none'']) ks)
                   (loadingSpinner f)\<rparr>
     \<and> (\<exists>f'. jdForm (jd_submit res d) = Some f' \<and> busy_cleared f')
     \<and> (\<exists>cs. calls (jd_submit res d) = calls d @ cs @ [OnFinally] \<and> OnFinally \<notin> set cs))
   \<and> (\<forall>g. cvForm d = Some g \<longrightarrow>
       cvForm (cv_submit parses res d) =
         Some \<lparr>submitBtn = map_option (\<lambda>disabled. False) (submitBtn g),
               loadingSpinner =
                 map_option
                   (\<lambda>sp. case sp of Element t cs ks \<Rightarrow>
                            Element t (filter (\<lambda>c. c \<noteq> ''d-none'') cs @ [''d-none'']) ks)
                   (loadingSpinner g)\<rparr>
     \<and> (\<exists>g'. cvForm (cv_submit parses res d) = Some g' \<and> busy_cleared g')
     \<and> (\<exists>cs. calls (cv_submit parses res d) = calls d @ cs @ [OnFinally] \<and>
               OnFinally \<notin> set cs))"
proof (intro conjI allI impI)
  fix f assume f: "jdForm d = Some f"
  show "jdForm (jd_submit res d) =
         Some \<lparr>submitBtn = map_option (\<lambda>disabled. False) (submitBtn f),
               loadingSpinner =
                 map_option
                   (\<lambda>sp. case sp of Element t cs ks \<Rightarrow>
                            Element t (filter (\<lambda>c. c \<noteq> ''d-none'') cs @ [''d-none'']) ks)
                   (loadingSpinner f)\<rparr>"
    using jd_form_after [OF f, of res] by (simp only: reset_show_loading)
  show "\<exists>f'. jdForm (jd_submit res d) = Some f' \<and> busy_cleared f'"
    using jd_form_after [OF f, of res] by (simp add: busy_cleared_reset)
  show "\<exists>cs. calls (jd_submit res d) = calls d @ cs @ [OnFinally] \<and> OnFinally \<notin> set cs"
    by (rule jd_finally_last [OF f])
next
  fix g assume g: "cvForm d = Some g"
  show "cvForm (cv_submit parses res d) =
         Some \<lparr>submitBtn = map_option (\<lambda>disabled. False) (submitBtn g),
               loadingSpinner =
                 map_option
                   (\<lambda>sp. case sp of Element t cs ks \<Rightarrow>
                            Element t (filter (\<lambda>c. c \<noteq> ''d-none'') cs @ [''d-none'']) ks)
                   (loadingSpinner g)\<rparr>"
    using cv_form_after [OF g, of parses res] by (simp only: reset_show_loading)
  show "\<exists>g'. cvForm (cv_submit parses res d) = Some g' \<and> busy_cleared g'"
    using cv_form_after [OF g, of parses res] by (simp add: busy_cleared_reset)
  show "\<exists>cs. calls (cv_submit parses res d) = calls d @ cs @ [OnFinally] \<and> OnFinally \<notin> set cs"
    by (rule cv_finally_last [OF g])
qed

theorem busy_state_cleared_witness:
  "jdForm (jd_submit (Resolved \<lparr>status = 200, json = Inr JNull\<rparr>)
             (page_jd_only\<lparr>jdForm :=
                Some \<lparr>submitBtn = Some True,
                      loadingSpinner = Some (Element ''div'' [''spinner-container''] [])\<rparr>\<rparr>)) =
     Some \<lparr>submitBtn = Some False,
           loadingSpinner = Some (Element ''div'' [''spinner-container'', ''d-none''] [])\<rparr>
   \<and> cvForm (cv_submit (\<lambda>s. True) (Rejected TypeError) page_cv_only) =
     Some \<lparr>submitBtn = Some False,
           loadingSpinner = Some (Element ''div'' [''spinner-container'', ''d-none''] [])\<rparr>"
  using busy_state_cleared
    [of "page_jd_only\<lparr>jdForm :=
                Some \<lparr>submitBtn = Some True,
                      loadingSpinner = Some (Element ''div'' [''spinner-container''] [])\<rparr>\<rparr>"
        "Resolved \<lparr>status = 200, json = Inr JNull\<rparr>"]
    busy_state_cleared [of page_cv_only "Rejected TypeError" "\<lambda>s. True"]
  by (simp add: page_jd_only_def page_cv_only_def page0_def)

text \<open>
  Claim C2, as amended. For every response to an upload request, on a page that holds
  the form (with or without the other form): when the status is outside 200..299, the
  failure callback runs and the success callback does not; when the status is in
  200..299 and the body is not JSON, again only the failure callback runs; when the
  status is in 200..299 and the body is JSON, the success callback runs, and the failure
  callback runs after it exactly when the success callback throws. So at least one of
  the two runs on every submission.
\<close>

theorem branch_by_status:
  "(\<forall>f. jdForm d = Some f \<longrightarrow>
       (\<not> ok r \<longrightarrow>
          calls (jd_submit (Resolved r) d) = calls d @ [OnResponse, OnCatch, OnFinally])
     \<and> (\<forall>e. ok r \<and> json r = Inl e \<longrightarrow>
          calls (jd_submit (Resolved r) d) = calls d @ [OnResponse, OnCatch, OnFinally])
     \<and> (\<forall>v. ok r \<and> json r = Inr v \<longrightarrow>
          calls (jd_submit (Resolved r) d) =
            calls d @ [OnResponse, OnData] @
              (if isl (fst (jd_on_data v d)) then [OnCatch] else []) @ [OnFinally]))
   \<and> (\<forall>g. cvForm d = Some g \<longrightarrow>
       (\<not> ok r \<longrightarrow>
          calls (cv_submit parses (Resolved r) d) = calls d @ [OnResponse, OnCatch, OnFinally])
     \<and> (\<forall>e. ok r \<and> json r = Inl e \<longrightarrow>
          calls (cv_submit parses (Resolved r) d) = calls d @ [OnResponse, OnCatch, OnFinally])
     \<and> (\<forall>v. ok r \<and> json r = Inr v \<longrightarrow>
          calls (cv_submit parses (Resolved r) d) =
            calls d @ [OnResponse, OnData] @
              (if isl (fst (cv_on_data parses v d)) then [OnCatch] else []) @ [OnFinally]))"
  using jd_calls_not_ok [of d _ r] cv_calls_not_ok [of d _ r parses]
    jd_calls_bad_body [of d _ r] cv_calls_bad_body [of d _ r _ parses]
    jd_calls_parsed [of d _ r] cv_calls_parsed [of d _ r _ parses]
  by blast

theorem branch_by_status_witness:
  "calls (jd_submit (Resolved \<lparr>status = 404, json = Inr (JObj [])\<rparr>) page_jd_only) =
     [OnResponse, OnCatch, OnFinally]
   \<and> calls (cv_submit (\<lambda>s. True) (Resolved \<lparr>status = 204, json = Inl SyntaxError\<rparr>)
             page_cv_only) =
     [OnResponse, OnCatch, OnFinally]
   \<and> calls (jd_submit
        (Resolved \<lparr>status = 200,
                   json = Inr (JObj [(''analysis'', JObj [(''skills'', JArr [JStr ''Go''])])])\<rparr>)
        page_jd_only) = [OnResponse, OnData, OnFinally]
   \<and> calls (cv_submit (\<lambda>s. True) (Resolved \<lparr>status = 200, json = Inr JNull\<rparr>) page_cv_only) =
     [OnResponse, OnData, OnCatch, OnFinally]"
proof -
  have jd: "jdForm page_jd_only =
      Some \<lparr>submitBtn = Some False,
            loadingSpinner = Some (Element ''div'' [''spinner-container'', ''d-none''] [])\<rparr>"
    and cv: "cvForm page_cv_only =
      Some \<lparr>submitBtn = Some False,
            loadingSpinner = Some (Element ''div'' [''spinner-container'', ''d-none''] [])\<rparr>"
    by (simp_all add: page_jd_only_def page_cv_only_def page0_def)
  have "createAnalysisSection ''Required Skills'' (JArr [JStr ''Go'']) =
      Inr (Element ''div'' [''mb-4'']
           [ElemNode (Element ''h5'' [] [TextNode ''Required Skills'']),
            ElemNode (Element ''ul'' [''list-group'']
              [ElemNode (Element ''li'' [''list-group-item''] [TextNode ''Go''])])])"
    using createAnalysisSection_strings [of "''Required Skills''" "''Go''" "[]"] by simp
  then have throws: "\<not> isl (fst (jd_on_data
        (JObj [(''analysis'', JObj [(''skills'', JArr [JStr ''Go''])])]) page_jd_only))"
    "isl (fst (cv_on_data (\<lambda>s. True) JNull page_cv_only))"
    by (simp_all add: jd_on_data_def cv_on_data_def Let_def showAlert_keeps page_jd_only_def
        page_cv_only_def page0_def populateJdResults_def sections_def analysis_section_def
        bind_err_def or_else_def createAnalysisSection_empty)
  have "calls page_jd_only = []" "calls page_cv_only = []"
    by (simp_all add: page_jd_only_def page_cv_only_def page0_def)
  then show ?thesis
    using branch_by_status [of page_jd_only "\<lparr>status = 404, json = Inr (JObj [])\<rparr>"]
      branch_by_status [of page_cv_only "\<lparr>status = 204, json = Inl SyntaxError\<rparr>" "\<lambda>s. True"]
      branch_by_status [of page_jd_only "\<lparr>status = 200,
                   json = Inr (JObj [(''analysis'', JObj [(''skills'', JArr [JStr ''Go''])])])\<rparr>"]
      branch_by_status [of page_cv_only "\<lparr>status = 200, json = Inr JNull\<rparr>" "\<lambda>s. True"]
      throws jd cv
    by (simp add: ok_def)
qed

text \<open>
  The claim as stated fails twice. A response with status 200 whose body is the JSON
  value \<^verbatim>\<open>null\<close> runs both callbacks of the resume form: the success callback shows its
  notification and then throws on \<^verbatim>\<open>data.redirect\<close>. A response with status 200 whose body
  is not JSON never reaches the success callback.
\<close>

theorem branch_by_status_counterexample:
  "ok \<lparr>status = 200, json = Inr JNull\<rparr>
   \<and> calls (cv_submit (\<lambda>s. True) (Resolved \<lparr>status = 200, json = Inr JNull\<rparr>) page0) =
       [OnResponse, OnData, OnCatch, OnFinally]
   \<and> calls (jd_submit (Resolved \<lparr>status = 200, json = Inl SyntaxError\<rparr>) page0) =
       [OnResponse, OnCatch, OnFinally]"
  by (simp add: ok_def cv_submit_def jd_submit_def fetch_def then_p_def catch_p_def finally_p_def
      on_response_def cv_on_data_def cv_on_catch_def cv_on_finally_def jd_on_catch_def
      jd_on_finally_def showAlert_def page0_def Let_def)

subsection \<open>Failed uploads\<close>

lemma jd_failure_page:
  assumes "jdForm d = Some f" and "upload_failed res"
  shows "\<exists>e d1. jd_submit res d = snd (jd_on_finally (snd (jd_on_catch e d1))) \<and>
           alerts_container d1 = alerts_container d \<and> timers d1 = timers d \<and>
           console d1 = console d \<and>
           requests d1 = requests d @ [(''POST'', ''/api/job-description'')] \<and>
           calls d1 = calls d @ (case res of Rejected e \<Rightarrow> [] | Resolved r \<Rightarrow> [OnResponse])"
proof (cases res rule: settled_cases)
  case (rejected e)
  let ?d1 = "requested ''/api/job-description'' (d\<lparr>jdForm := Some (show_loading f)\<rparr>)"
  have "jd_submit res d = snd (jd_on_finally (snd (jd_on_catch e ?d1)))"
    using rejected by (simp add: jd_submit_eq [OF assms(1)] chain_rejected)
  then show ?thesis using rejected
    by (intro exI [of _ e] exI [of _ ?d1]) (simp add: requested_def)
next
  case (not_ok r)
  let ?d1 = "responded ''/api/job-description'' (d\<lparr>jdForm := Some (show_loading f)\<rparr>)"
  have "jd_submit res d =
      snd (jd_on_finally (snd (jd_on_catch (Error ''Network response was not ok'') ?d1)))"
    using not_ok by (simp add: jd_submit_eq [OF assms(1)] chain_not_ok)
  then show ?thesis using not_ok
    by (intro exI [of _ "Error ''Network response was not ok''"] exI [of _ ?d1])
      (simp add: requested_def responded_def)
next
  case (bad_body r e)
  let ?d1 = "responded ''/api/job-description'' (d\<lparr>jdForm := Some (show_loading f)\<rparr>)"
  have "jd_submit res d = snd (jd_on_finally (snd (jd_on_catch e ?d1)))"
    using bad_body by (simp add: jd_submit_eq [OF assms(1)] chain_bad_body)
  then show ?thesis using bad_body
    by (intro exI [of _ e] exI [of _ ?d1]) (simp add: requested_def responded_def)
next
  case (parsed r v)
  then show ?thesis using assms(2) by (simp add: upload_failed_def)
qed

lemma cv_failure_page:
  assumes "cvForm d = Some f" and "upload_failed res"
  shows "\<exists>e d1. cv_submit parses res d = snd (cv_on_finally (snd (cv_on_catch e d1))) \<and>
           alerts_container d1 = alerts_container d \<and> timers d1 = timers d \<and>
           console d1 = console d \<and>
           requests d1 = requests d @ [(''POST'', ''/api/resume'')] \<and>
           calls d1 = calls d @ (case res of Rejected e \<Rightarrow> [] | Resolved r \<Rightarrow> [OnResponse])"
proof (cases res rule: settled_cases)
  case (rejected e)
  let ?d1 = "requested ''/api/resume'' (d\<lparr>cvForm := Some (show_loading f)\<rparr>)"
  have "cv_submit parses res d = snd (cv_on_finally (snd (cv_on_catch e ?d1)))"
    using rejected by (simp add: cv_submit_eq [OF assms(1)] chain_rejected)
  then show ?thesis using rejected
    by (intro exI [of _ e] exI [of _ ?d1]) (simp add: requested_def)
next
  case (not_ok r)
  let ?d1 = "responded ''/api/resume'' (d\<lparr>cvForm := Some (show_loading f)\<rparr>)"
  have "cv_submit parses res d =
      snd (cv_on_finally (snd (cv_on_catch (Error ''Network response was not ok'') ?d1)))"
    using not_ok by (simp add: cv_submit_eq [OF assms(1)] chain_not_ok)
  then show ?thesis using not_ok
    by (intro exI [of _ "Error ''Network response was not ok''"] exI [of _ ?d1])
      (simp add: requested_def responded_def)
next
  case (bad_body r e)
  let ?d1 = "responded ''/api/resume'' (d\<lparr>cvForm := Some (show_loading f)\<rparr>)"
  have "cv_submit parses res d = snd (cv_on_finally (snd (cv_on_catch e ?d1)))"
    using bad_body by (simp add: cv_submit_eq [OF assms(1)] chain_bad_body)
  then show ?thesis using bad_body
    by (intro exI [of _ e] exI [of _ ?d1]) (simp add: requested_def responded_def)
next
  case (parsed r v)
  then show ?thesis using assms(2) by (simp add: upload_failed_def)
qed

lemma jd_catch_finally:
  "console (snd (jd_on_finally (snd (jd_on_catch e d1)))) = console d1 @ [e]"
  "requests (snd (jd_on_finally (snd (jd_on_catch e d1)))) = requests d1"
  "calls (snd (jd_on_finally (snd (jd_on_catch e d1)))) = calls d1 @ [OnCatch, OnFinally]"
  "alerts_container (snd (jd_on_finally (snd (jd_on_catch e d1)))) =
     alerts_container
       (showAlert ''danger'' ''Failed to upload job description. Please try again.'' d1)"
  "timers (snd (jd_on_finally (snd (jd_on_catch e d1)))) =
     timers (showAlert ''danger'' ''Failed to upload job description. Please try again.'' d1)"
  by (simp_all add: jd_on_finally_def jd_on_catch_def Let_def showAlert_keeps showAlert_def
      split: option.split)

lemma cv_catch_finally:
  "console (snd (cv_on_finally (snd (cv_on_catch e d1)))) = console d1 @ [e]"
  "requests (snd (cv_on_finally (snd (cv_on_catch e d1)))) = requests d1"
  "calls (snd (cv_on_finally (snd (cv_on_catch e d1)))) = calls d1 @ [OnCatch, OnFinally]"
  "alerts_container (snd (cv_on_finally (snd (cv_on_catch e d1)))) =
     alerts_container (showAlert ''danger'' ''Failed to upload resume. Please try again.'' d1)"
  "timers (snd (cv_on_finally (snd (cv_on_catch e d1)))) =
     timers (showAlert ''danger'' ''Failed to upload resume. Please try again.'' d1)"
  by (simp_all add: cv_on_finally_def cv_on_catch_def Let_def showAlert_keeps showAlert_def
      split: option.split)

lemma jd_danger_shown:
  "alerts_container d1 = Some as \<Longrightarrow> timers d1 = ts \<Longrightarrow>
   alerts_container
     (showAlert ''danger'' ''Failed to upload job description. Please try again.'' d1) =
     Some (as @ [\<lparr>className = ''alert alert-danger alert-dismissible fade show'',
                      role = ''alert'',
                      innerHTML =
                        CHR 0x0A # ''        Failed to upload job description. Please try again.'' @
                        CHR 0x0A # ''        <button type='' @ CHR 0x22 # ''button'' @ CHR 0x22 #
                          '' class='' @ CHR 0x22 # ''btn-close'' @ CHR 0x22 #
                          '' data-bs-dismiss='' @ CHR 0x22 # ''alert'' @ CHR 0x22 #
                          '' aria-label='' @ CHR 0x22 # ''Close'' @ CHR 0x22 # ''></button>'' @
                        CHR 0x0A # ''    ''\<rparr>]) \<and>
   timers (showAlert ''danger'' ''Failed to upload job description. Please try again.'' d1) =
     ts @ [(5000, \<lparr>className = ''alert alert-danger alert-dismissible fade show'',
                      role = ''alert'',
                      innerHTML =
                        CHR 0x0A # ''        Failed to upload job description. Please try again.'' @
                        CHR 0x0A # ''        <button type='' @ CHR 0x22 # ''button'' @ CHR 0x22 #
                          '' class='' @ CHR 0x22 # ''btn-close'' @ CHR 0x22 #
                          '' data-bs-dismiss='' @ CHR 0x22 # ''alert'' @ CHR 0x22 #
                          '' aria-label='' @ CHR 0x22 # ''Close'' @ CHR 0x22 # ''></button>'' @
                        CHR 0x0A # ''    ''\<rparr>)]"
  by (simp add: showAlert_def alert_markup_def Let_def)

lemma cv_danger_shown:
  "alerts_container d1 = Some as \<Longrightarrow> timers d1 = ts \<Longrightarrow>
   alerts_container (showAlert ''danger'' ''Failed to upload resume. Please try again.'' d1) =
     Some (as @ [\<lparr>className = ''alert alert-danger alert-dismissible fade show'',
                      role = ''alert'',
                      innerHTML =
                        CHR 0x0A # ''        Failed to upload resume. Please try again.'' @
                        CHR 0x0A # ''        <button type='' @ CHR 0x22 # ''button'' @ CHR 0x22 #
                          '' class='' @ CHR 0x22 # ''btn-close'' @ CHR 0x22 #
                          '' data-bs-dismiss='' @ CHR 0x22 # ''alert'' @ CHR 0x22 #
                          '' aria-label='' @ CHR 0x22 # ''Close'' @ CHR 0x22 # ''></button>'' @
                        CHR 0x0A # ''    ''\<rparr>]) \<and>
   timers (showAlert ''danger'' ''Failed to upload resume. Please try again.'' d1) =
     ts @ [(5000, \<lparr>className = ''alert alert-danger alert-dismissible fade show'',
                      role = ''alert'',
                      innerHTML =
                        CHR 0x0A # ''        Failed to upload resume. Please try again.'' @
                        CHR 0x0A # ''        <button type='' @ CHR 0x22 # ''button'' @ CHR 0x22 #
                          '' class='' @ CHR 0x22 # ''btn-close'' @ CHR 0x22 #
                          '' data-bs-dismiss='' @ CHR 0x22 # ''alert'' @ CHR 0x22 #
                          '' aria-label='' @ CHR 0x22 # ''Close'' @ CHR 0x22 # ''></button>'' @
                        CHR 0x0A # ''    ''\<rparr>)]"
  by (simp add: showAlert_def alert_markup_def Let_def)

lemma danger_dropped:
  "alerts_container d1 = None \<Longrightarrow> timers d1 = ts \<Longrightarrow>
   alerts_container (showAlert ''danger'' m d1) = None \<and>
   timers (showAlert ''danger'' m d1) = ts"
  by (simp add: showAlert_def)

lemma jd_failed_upload:
  assumes "jdForm d = Some f" and "upload_failed res"
  shows "(\<exists>e. console (jd_submit res d) = console d @ [e])
       \<and> requests (jd_submit res d) = requests d @ [(''POST'', ''/api/job-description'')]
       \<and> calls (jd_submit res d) =
           calls d @ (case res of Rejected e \<Rightarrow> [] | Resolved r \<Rightarrow> [OnResponse]) @
             [OnCatch, OnFinally]
       \<and> (\<forall>as. alerts_container d = Some as \<longrightarrow>
             alerts_container (jd_submit res d) = Some (as @ [\<lparr>className = ''alert alert-danger alert-dismissible fade show'',
                      role = ''alert'',
                      innerHTML =
                        CHR 0x0A # ''        Failed to upload job description. Please try again.'' @
                        CHR 0x0A # ''        <button type='' @ CHR 0x22 # ''button'' @ CHR 0x22 #
                          '' class='' @ CHR 0x22 # ''btn-close'' @ CHR 0x22 #
                          '' data-bs-dismiss='' @ CHR 0x22 # ''alert'' @ CHR 0x22 #
                          '' aria-label='' @ CHR 0x22 # ''Close'' @ CHR 0x22 # ''></button>'' @
                        CHR 0x0A # ''    ''\<rparr>]) \<and>
             timers (jd_submit res d) = timers d @ [(5000, \<lparr>className = ''alert alert-danger alert-dismissible fade show'',
                      role = ''alert'',
                      innerHTML =
                        CHR 0x0A # ''        Failed to upload job description. Please try again.'' @
                        CHR 0x0A # ''        <button type='' @ CHR 0x22 # ''button'' @ CHR 0x22 #
                          '' class='' @ CHR 0x22 # ''btn-close'' @ CHR 0x22 #
                          '' data-bs-dismiss='' @ CHR 0x22 # ''alert'' @ CHR 0x22 #
                          '' aria-label='' @ CHR 0x22 # ''Close'' @ CHR 0x22 # ''></button>'' @
                        CHR 0x0A # ''    ''\<rparr>)])
       \<and> (alerts_container d = None \<longrightarrow>
             alerts_container (jd_submit res d) = None \<and> timers (jd_submit res d) = timers d)"
proof -
  obtain e d1 where s: "jd_submit res d = snd (jd_on_finally (snd (jd_on_catch e d1)))"
    and d1: "alerts_container d1 = alerts_container d" "timers d1 = timers d"
      "console d1 = console d"
      "requests d1 = requests d @ [(''POST'', ''/api/job-description'')]"
      "calls d1 = calls d @ (case res of Rejected e \<Rightarrow> [] | Resolved r \<Rightarrow> [OnResponse])"
    using jd_failure_page [OF assms] by blast
  have shown: "alerts_container d = Some as \<Longrightarrow>
      alerts_container (jd_submit res d) = Some (as @ [\<lparr>className = ''alert alert-danger alert-dismissible fade show'',
                      role = ''alert'',
                      innerHTML =
                        CHR 0x0A # ''        Failed to upload job description. Please try again.'' @
                        CHR 0x0A # ''        <button type='' @ CHR 0x22 # ''button'' @ CHR 0x22 #
                          '' class='' @ CHR 0x22 # ''btn-close'' @ CHR 0x22 #
                          '' data-bs-dismiss='' @ CHR 0x22 # ''alert'' @ CHR 0x22 #
                          '' aria-label='' @ CHR 0x22 # ''Close'' @ CHR 0x22 # ''></button>'' @
                        CHR 0x0A # ''    ''\<rparr>]) \<and>
      timers (jd_submit res d) = timers d @ [(5000, \<lparr>className = ''alert alert-danger alert-dismissible fade show'',
                      role = ''alert'',
                      innerHTML =
                        CHR 0x0A # ''        Failed to upload job description. Please try again.'' @
                        CHR 0x0A # ''        <button type='' @ CHR 0x22 # ''button'' @ CHR 0x22 #
                          '' class='' @ CHR 0x22 # ''btn-close'' @ CHR 0x22 #
                          '' data-bs-dismiss='' @ CHR 0x22 # ''alert'' @ CHR 0x22 #
                          '' aria-label='' @ CHR 0x22 # ''Close'' @ CHR 0x22 # ''></button>'' @
                        CHR 0x0A # ''    ''\<rparr>)]" for as
    unfolding s jd_catch_finally using jd_danger_shown [of d1 as "timers d"] d1 by simp
  have dropped: "alerts_container d = None \<Longrightarrow>
      alerts_container (jd_submit res d) = None \<and> timers (jd_submit res d) = timers d"
    unfolding s jd_catch_finally using danger_dropped [of d1 "timers d"] d1 by simp
  have rest: "(\<exists>e. console (jd_submit res d) = console d @ [e])
       \<and> requests (jd_submit res d) = requests d @ [(''POST'', ''/api/job-description'')]
       \<and> calls (jd_submit res d) =
           calls d @ (case res of Rejected e \<Rightarrow> [] | Resolved r \<Rightarrow> [OnResponse]) @
             [OnCatch, OnFinally]"
    unfolding s by (simp add: jd_catch_finally d1)
  show ?thesis using shown dropped rest by blast
qed

lemma cv_failed_upload:
  assumes "cvForm d = Some f" and "upload_failed res"
  shows "(\<exists>e. console (cv_submit parses res d) = console d @ [e])
       \<and> requests (cv_submit parses res d) = requests d @ [(''POST'', ''/api/resume'')]
       \<and> calls (cv_submit parses res d) =
           calls d @ (case res of Rejected e \<Rightarrow> [] | Resolved r \<Rightarrow> [OnResponse]) @
             [OnCatch, OnFinally]
       \<and> (\<forall>as. alerts_container d = Some as \<longrightarrow>
             alerts_container (cv_submit parses res d) = Some (as @ [\<lparr>className = ''alert alert-danger alert-dismissible fade show'',
                      role = ''alert'',
                      innerHTML =
                        CHR 0x0A # ''        Failed to upload resume. Please try again.'' @
                        CHR 0x0A # ''        <button type='' @ CHR 0x22 # ''button'' @ CHR 0x22 #
                          '' class='' @ CHR 0x22 # ''btn-close'' @ CHR 0x22 #
                          '' data-bs-dismiss='' @ CHR 0x22 # ''alert'' @ CHR 0x22 #
                          '' aria-label='' @ CHR 0x22 # ''Close'' @ CHR 0x22 # ''></button>'' @
                        CHR 0x0A # ''    ''\<rparr>]) \<and>
             timers (cv_submit parses res d) = timers d @ [(5000, \<lparr>className = ''alert alert-danger alert-dismissible fade show'',
                      role = ''alert'',
                      innerHTML =
                        CHR 0x0A # ''        Failed to upload resume. Please try again.'' @
                        CHR 0x0A # ''        <button type='' @ CHR 0x22 # ''button'' @ CHR 0x22 #
                          '' class='' @ CHR 0x22 # ''btn-close'' @ CHR 0x22 #
                          '' data-bs-dismiss='' @ CHR 0x22 # ''alert'' @ CHR 0x22 #
                          '' aria-label='' @ CHR 0x22 # ''Close'' @ CHR 0x22 # ''></button>'' @
                        CHR 0x0A # ''    ''\<rparr>)])
       \<and> (alerts_container d = None \<longrightarrow>
             alerts_container (cv_submit parses res d) = None \<and>
             timers (cv_submit parses res d) = timers d)"
proof -
  obtain e d1 where s: "cv_submit parses res d = snd (cv_on_finally (snd (cv_on_catch e d1)))"
    and d1: "alerts_container d1 = alerts_container d" "timers d1 = timers d"
      "console d1 = console d"
      "requests d1 = requests d @ [(''POST'', ''/api/resume'')]"
      "calls d1 = calls d @ (case res of Rejected e \<Rightarrow> [] | Resolved r \<Rightarrow> [OnResponse])"
    using cv_failure_page [OF assms] by blast
  have shown: "alerts_container d = Some as \<Longrightarrow>
      alerts_container (cv_submit parses res d) = Some (as @ [\<lparr>className = ''alert alert-danger alert-dismissible fade show'',
                      role = ''alert'',
                      innerHTML =
                        CHR 0x0A # ''        Failed to upload resume. Please try again.'' @
                        CHR 0x0A # ''        <button type='' @ CHR 0x22 # ''button'' @ CHR 0x22 #
                          '' class='' @ CHR 0x22 # ''btn-close'' @ CHR 0x22 #
                          '' data-bs-dismiss='' @ CHR 0x22 # ''alert'' @ CHR 0x22 #
                          '' aria-label='' @ CHR 0x22 # ''Close'' @ CHR 0x22 # ''></button>'' @
                        CHR 0x0A # ''    ''\<rparr>]) \<and>
      timers (cv_submit parses res d) = timers d @ [(5000, \<lparr>className = ''alert alert-danger alert-dismissible fade show'',
                      role = ''alert'',
                      innerHTML =
                        CHR 0x0A # ''        Failed to upload resume. Please try again.'' @
                        CHR 0x0A # ''        <button type='' @ CHR 0x22 # ''button'' @ CHR 0x22 #
                          '' class='' @ CHR 0x22 # ''btn-close'' @ CHR 0x22 #
                          '' data-bs-dismiss='' @ CHR 0x22 # ''alert'' @ CHR 0x22 #
                          '' aria-label='' @ CHR 0x22 # ''Close'' @ CHR 0x22 # ''></button>'' @
                        CHR 0x0A # ''    ''\<rparr>)]" for as
    unfolding s cv_catch_finally using cv_danger_shown [of d1 as "timers d"] d1 by simp
  have dropped: "alerts_container d = None \<Longrightarrow>
      alerts_container (cv_submit parses res d) = None \<and>
      timers (cv_submit parses res d) = timers d"
    unfolding s cv_catch_finally using danger_dropped [of d1 "timers d"] d1 by simp
  have rest: "(\<exists>e. console (cv_submit parses res d) = console d @ [e])
       \<and> requests (cv_submit parses res d) = requests d @ [(''POST'', ''/api/resume'')]
       \<and> calls (cv_submit parses res d) =
           calls d @ (case res of Rejected e \<Rightarrow> [] | Resolved r \<Rightarrow> [OnResponse]) @
             [OnCatch, OnFinally]"
    unfolding s by (simp add: cv_catch_finally d1)
  show ?thesis using shown dropped rest by blast
qed

text \<open>
  Claim C4, as amended. On every failed upload (the request fails, the status is not a
  success, or the body of a successful response is not JSON), on a page that holds the
  form (with or without the other form), the failure is handled the same way: the error
  is caught by the chain's own callback and written once to the console, the success
  callback does not run, and exactly one request has been issued and none follows. When
  the page has a notification area, exactly one notification is appended to it, the
  \<^verbatim>\<open>danger\<close> alert with the fixed message of the form, and one timer of 5000 milliseconds
  is set for it; when the page has none, no notification is shown and no timer is set.
\<close>

theorem failed_upload_handling:
  assumes "upload_failed res"
  shows "(\<forall>f. jdForm d = Some f \<longrightarrow>
           (\<exists>e. console (jd_submit res d) = console d @ [e])
         \<and> requests (jd_submit res d) = requests d @ [(''POST'', ''/api/job-description'')]
         \<and> calls (jd_submit res d) =
             calls d @ (case res of Rejected e \<Rightarrow> [] | Resolved r \<Rightarrow> [OnResponse]) @
               [OnCatch, OnFinally]
         \<and> (\<forall>as. alerts_container d = Some as \<longrightarrow>
               alerts_container (jd_submit res d) = Some (as @ [\<lparr>className = ''alert alert-danger alert-dismissible fade show'',
                      role = ''alert'',
                      innerHTML =
                        CHR 0x0A # ''        Failed to upload job description. Please try again.'' @
                        CHR 0x0A # ''        <button type='' @ CHR 0x22 # ''button'' @ CHR 0x22 #
                          '' class='' @ CHR 0x22 # ''btn-close'' @ CHR 0x22 #
                          '' data-bs-dismiss='' @ CHR 0x22 # ''alert'' @ CHR 0x22 #
                          '' aria-label='' @ CHR 0x22 # ''Close'' @ CHR 0x22 # ''></button>'' @
                        CHR 0x0A # ''    ''\<rparr>]) \<and>
               timers (jd_submit res d) = timers d @ [(5000, \<lparr>className = ''alert alert-danger alert-dismissible fade show'',
                      role = ''alert'',
                      innerHTML =
                        CHR 0x0A # ''        Failed to upload job description. Please try again.'' @
                        CHR 0x0A # ''        <button type='' @ CHR 0x22 # ''button'' @ CHR 0x22 #
                          '' class='' @ CHR 0x22 # ''btn-close'' @ CHR 0x22 #
                          '' data-bs-dismiss='' @ CHR 0x22 # ''alert'' @ CHR 0x22 #
                          '' aria-label='' @ CHR 0x22 # ''Close'' @ CHR 0x22 # ''></button>'' @
                        CHR 0x0A # ''    ''\<rparr>)])
         \<and> (alerts_container d = None \<longrightarrow>
               alerts_container (jd_submit res d) = None \<and>
               timers (jd_submit res d) = timers d))
     \<and> (\<forall>g. cvForm d = Some g \<longrightarrow>
           (\<exists>e. console (cv_submit parses res d) = console d @ [e])
         \<and> requests (cv_submit parses res d) = requests d @ [(''POST'', ''/api/resume'')]
         \<and> calls (cv_submit parses res d) =
             calls d @ (case res of Rejected e \<Rightarrow> [] | Resolved r \<Rightarrow> [OnResponse]) @
               [OnCatch, OnFinally]
         \<and> (\<forall>as. alerts_container d = Some as \<longrightarrow>
               alerts_container (cv_submit parses res d) = Some (as @ [\<lparr>className = ''alert alert-danger alert-dismissible fade show'',
                      role = ''alert'',
                      innerHTML =
                        CHR 0x0A # ''        Failed to upload resume. Please try again.'' @
                        CHR 0x0A # ''        <button type='' @ CHR 0x22 # ''button'' @ CHR 0x22 #
                          '' class='' @ CHR 0x22 # ''btn-close'' @ CHR 0x22 #
                          '' data-bs-dismiss='' @ CHR 0x22 # ''alert'' @ CHR 0x22 #
                          '' aria-label='' @ CHR 0x22 # ''Close'' @ CHR 0x22 # ''></button>'' @
                        CHR 0x0A # ''    ''\<rparr>]) \<and>
               timers (cv_submit parses res d) = timers d @ [(5000, \<lparr>className = ''alert alert-danger alert-dismissible fade show'',
                      role = ''alert'',
                      innerHTML =
                        CHR 0x0A # ''        Failed to upload resume. Please try again.'' @
                        CHR 0x0A # ''        <button type='' @ CHR 0x22 # ''button'' @ CHR 0x22 #
                          '' class='' @ CHR 0x22 # ''btn-close'' @ CHR 0x22 #
                          '' data-bs-dismiss='' @ CHR 0x22 # ''alert'' @ CHR 0x22 #
                          '' aria-label='' @ CHR 0x22 # ''Close'' @ CHR 0x22 # ''></button>'' @
                        CHR 0x0A # ''    ''\<rparr>)])
         \<and> (alerts_container d = None \<longrightarrow>
               alerts_container (cv_submit parses res d) = None \<and>
               timers (cv_submit parses res d) = timers d))"
  using jd_failed_upload [of d _ res] cv_failed_upload [of d _ res parses] assms by blast

theorem failed_upload_handling_witness:
  "alerts_container (jd_submit (Resolved \<lparr>status = 500, json = Inl SyntaxError\<rparr>) page_jd_only) =
     Some [\<lparr>className = ''alert alert-danger alert-dismissible fade show'',
                      role = ''alert'',
                      innerHTML =
                        CHR 0x0A # ''        Failed to upload job description. Please try again.'' @
                        CHR 0x0A # ''        <button type='' @ CHR 0x22 # ''button'' @ CHR 0x22 #
                          '' class='' @ CHR 0x22 # ''btn-close'' @ CHR 0x22 #
                          '' data-bs-dismiss='' @ CHR 0x22 # ''alert'' @ CHR 0x22 #
                          '' aria-label='' @ CHR 0x22 # ''Close'' @ CHR 0x22 # ''></button>'' @
                        CHR 0x0A # ''    ''\<rparr>]
   \<and> requests (jd_submit (Resolved \<lparr>status = 500, json = Inl SyntaxError\<rparr>) page_jd_only) =
     [(''POST'', ''/api/job-description'')]
   \<and> calls (jd_submit (Resolved \<lparr>status = 500, json = Inl SyntaxError\<rparr>) page_jd_only) =
     [OnResponse, OnCatch, OnFinally]
   \<and> alerts_container (cv_submit (\<lambda>s. True) (Rejected TypeError) page_no_alerts) = None
   \<and> timers (cv_submit (\<lambda>s. True) (Rejected TypeError) page_no_alerts) = []"
  using failed_upload_handling
    [of "Resolved \<lparr>status = 500, json = Inl SyntaxError\<rparr>" page_jd_only]
    failed_upload_handling [of "Rejected TypeError" page_no_alerts "\<lambda>s. True"]
  by (simp add: page_jd_only_def page_no_alerts_def page0_def upload_failed_def ok_def)

text \<open>
  The claim as stated fails on a page without the notification area: the failed upload
  is logged, but no notification is shown and no timer is set.
\<close>

theorem failed_upload_handling_counterexample:
  "upload_failed (Rejected TypeError)
   \<and> console (jd_submit (Rejected TypeError) page_no_alerts) = [TypeError]
   \<and> alerts_container (jd_submit (Rejected TypeError) page_no_alerts) = None
   \<and> timers (jd_submit (Rejected TypeError) page_no_alerts) = []"
  by (simp add: upload_failed_def jd_submit_def fetch_def then_p_def catch_p_def finally_p_def
      jd_on_catch_def jd_on_finally_def showAlert_def page_no_alerts_def page0_def Let_def)

subsection \<open>The redirect of the resume form\<close>












subsection \<open>A page without the notification area\<close>

lemma jd_on_data_no_alerts:
  "alerts_container d = None \<Longrightarrow>
   alerts_container (snd (jd_on_data v d)) = None \<and> timers (snd (jd_on_data v d)) = timers d"
  by (simp add: jd_on_data_def Let_def showAlert_def split: option.split sum.split prod.split)

lemma cv_on_data_no_alerts:
  "alerts_container d = None \<Longrightarrow>
   alerts_container (snd (cv_on_data parses v d)) = None \<and> timers (snd (cv_on_data parses v d)) = timers d"
  by (simp add: cv_on_data_def set_location_href_def Let_def showAlert_def
      split: option.split sum.split prod.split)

lemma jd_on_catch_no_alerts:
  "alerts_container d = None \<Longrightarrow>
   alerts_container (snd (jd_on_catch e d)) = None \<and> timers (snd (jd_on_catch e d)) = timers d"
  by (simp add: jd_on_catch_def Let_def showAlert_def)

lemma cv_on_catch_no_alerts:
  "alerts_container d = None \<Longrightarrow>
   alerts_container (snd (cv_on_catch e d)) = None \<and> timers (snd (cv_on_catch e d)) = timers d"
  by (simp add: cv_on_catch_def Let_def showAlert_def)

lemma jd_submit_no_alerts:
  assumes "alerts_container d = None"
  shows "alerts_container (jd_submit res d) = None \<and> timers (jd_submit res d) = timers d"
proof (cases "jdForm d")
  case None
  then show ?thesis using assms by (simp add: jd_submit_def)
next
  case (Some f)
  show ?thesis
  proof (cases res rule: settled_cases)
    case (rejected e)
    then show ?thesis using assms
      by (simp add: jd_submit_eq [OF Some] chain_rejected jd_on_finally_def Let_def
          jd_on_catch_no_alerts requested_def)
  next
    case (not_ok r)
    then show ?thesis using assms
      by (simp add: jd_submit_eq [OF Some] chain_not_ok jd_on_finally_def Let_def
          jd_on_catch_no_alerts responded_def requested_def)
  next
    case (bad_body r e)
    then show ?thesis using assms
      by (simp add: jd_submit_eq [OF Some] chain_bad_body jd_on_finally_def Let_def
          jd_on_catch_no_alerts responded_def requested_def)
  next
    case (parsed r v)
    then show ?thesis using assms
      by (simp add: jd_submit_eq [OF Some] chain_data jd_on_finally_def Let_def
          jd_on_catch_no_alerts jd_on_data_no_alerts responded_def requested_def
          split: sum.split)
  qed
qed

lemma cv_submit_no_alerts:
  assumes "alerts_container d = None"
  shows "alerts_container (cv_submit parses res d) = None \<and> timers (cv_submit parses res d) = timers d"
proof (cases "cvForm d")
  case None
  then show ?thesis using assms by (simp add: cv_submit_def)
next
  case (Some f)
  show ?thesis
  proof (cases res rule: settled_cases)
    case (rejected e)
    then show ?thesis using assms
      by (simp add: cv_submit_eq [OF Some] chain_rejected cv_on_finally_def Let_def
          cv_on_catch_no_alerts requested_def)
  next
    case (not_ok r)
    then show ?thesis using assms
      by (simp add: cv_submit_eq [OF Some] chain_not_ok cv_on_finally_def Let_def
          cv_on_catch_no_alerts responded_def requested_def)
  next
    case (bad_body r e)
    then show ?thesis using assms
      by (simp add: cv_submit_eq [OF Some] chain_bad_body cv_on_finally_def Let_def
          cv_on_catch_no_alerts responded_def requested_def)
  next
    case (parsed r v)
    then show ?thesis using assms
      by (simp add: cv_submit_eq [OF Some] chain_data cv_on_finally_def Let_def
          cv_on_catch_no_alerts cv_on_data_no_alerts responded_def requested_def
          split: sum.split)
  qed
qed

text \<open>
  Claim C9. When the page has no element \<^verbatim>\<open>alerts-container\<close>, a call of \<open>showAlert\<close> with
  any severity and message leaves the whole page as it is: nothing is appended and no
  timer is set. Hence a submission of either form, however its request settles, ends
  without a notification area and with the timers it started with: the success and
  failure notifications are dropped.
\<close>

theorem absent_notification_area:
  assumes "alerts_container d = None"
  shows "showAlert ty message d = d
       \<and> alerts_container (jd_submit res d) = None \<and> timers (jd_submit res d) = timers d
       \<and> alerts_container (cv_submit parses res d) = None \<and> timers (cv_submit parses res d) = timers d"
  using assms jd_submit_no_alerts [OF assms, of res] cv_submit_no_alerts [OF assms, of parses res]
  by (simp add: showAlert_absent)

theorem absent_notification_area_witness:
  "showAlert ''danger'' ''Failed to upload resume. Please try again.'' page_no_alerts =
     page_no_alerts
   \<and> alerts_container (jd_submit (Resolved \<lparr>status = 200, json = Inr (JObj [])\<rparr>) page_no_alerts) =
       None
   \<and> timers (cv_submit (\<lambda>s. True) (Rejected TypeError) page_no_alerts) = []"
  using absent_notification_area
    [of page_no_alerts "''danger''" "''Failed to upload resume. Please try again.''"
        "Resolved \<lparr>status = 200, json = Inr (JObj [])\<rparr>"]
    absent_notification_area [of page_no_alerts _ _ "Rejected TypeError" "\<lambda>s. True"]
  by (simp add: page_no_alerts_def page0_def)

section \<open>Properties of the candidate scores chart\<close>
















end
